theory Spec2Isabelle
  imports Main "HOL-Library.AList"
begin

section \<open>Router: candidate resources for a URL (lib/router.js)\<close>

text \<open>
  A resource is an object with a base \<open>path\<close>; the record is extensible, so that two
  resources with the same path stay different objects and so that the request loop can
  attach a handler to it. JavaScript strings are modelled as lists of 8-bit characters.
\<close>

record resource =
  path :: string

subsection \<open>The regular expression built by \<open>generateRegex\<close>\<close>

text \<open>
  \<open>key.replace(/[-[\]{}()+?.,\\^$|#\s]/g, '\\$&')\<close> puts a backslash before every
  character of the class. The class holds the punctuation listed, the backslash and the
  white space characters; the quantifier \<open>*\<close> is not a member of it.
\<close>

definition escape_class :: "char list" where
  "escape_class =
     ''-[]{}()+?.,^$|#'' @
     [CHR 0x5C, CHR 0x09, CHR 0x0A, CHR 0x0B, CHR 0x0C, CHR 0x0D, CHR 0x20, CHR 0xA0]"

fun escapePath :: "string \<Rightarrow> string" where
  "escapePath [] = []"
| "escapePath (c # cs) =
     (if c \<in> set escape_class then CHR 0x5C # c # escapePath cs else c # escapePath cs)"

text \<open>
  \<open>new RegExp(`^${escapedPath}(?:[/?].*)?$`)\<close>. The part of the pattern that comes from
  the path is a sequence of atoms: a character, or a character under the quantifier
  \<open>*\<close>. A backslash followed by a character of the class is an identity escape and stands
  for that character. A \<open>*\<close> with nothing before it to repeat makes the constructor throw
  a SyntaxError. Any other syntax character without a backslash does not occur in the
  result of \<open>escapePath\<close>; the parser reports it as unsupported instead of guessing.
\<close>

datatype atom = Lit char | Star char

datatype regex_error = SyntaxError | Unsupported

definition cons_atom :: "atom \<Rightarrow> regex_error + atom list \<Rightarrow> regex_error + atom list" where
  "cons_atom a res = (case res of Inl err \<Rightarrow> Inl err | Inr as \<Rightarrow> Inr (a # as))"

fun parse_atoms :: "string \<Rightarrow> regex_error + atom list" where
  "parse_atoms [] = Inr []"
| "parse_atoms (c # cs) =
     (if c = CHR ''*'' then Inl SyntaxError
      else if c = CHR 0x5C then
        (case cs of
           [] \<Rightarrow> Inl SyntaxError
         | e # es \<Rightarrow>
             (if e \<in> set escape_class then
                (case es of
                   [] \<Rightarrow> Inr [Lit e]
                 | d # ds \<Rightarrow>
                     (if d = CHR ''*'' then cons_atom (Star e) (parse_atoms ds)
                      else cons_atom (Lit e) (parse_atoms (d # ds))))
              else Inl Unsupported))
      else if c \<in> set escape_class then Inl Unsupported
      else
        (case cs of
           [] \<Rightarrow> Inr [Lit c]
         | d # ds \<Rightarrow>
             (if d = CHR ''*'' then cons_atom (Star c) (parse_atoms ds)
              else cons_atom (Lit c) (parse_atoms (d # ds)))))"

text \<open>
  \<open>regex.test(url)\<close> for \<open>^\<close> atoms \<open>(?:[/?].*)?$\<close>: after the atoms, the input ends,
  or goes on with \<open>/\<close> or \<open>?\<close> and then any characters but line terminators (the dot
  does not match them).
\<close>

definition line_terminator :: "char \<Rightarrow> bool" where
  "line_terminator c = (c = CHR 0x0A \<or> c = CHR 0x0D)"

fun continuation :: "string \<Rightarrow> bool" where
  "continuation [] = True"
| "continuation (c # cs) =
     ((c = CHR ''/'' \<or> c = CHR ''?'') \<and> list_all (\<lambda>d. \<not> line_terminator d) cs)"

fun regex_test :: "atom list \<Rightarrow> string \<Rightarrow> bool" where
  "regex_test [] s = continuation s"
| "regex_test (Lit c # as) [] = False"
| "regex_test (Lit c # as) (x # xs) = (x = c \<and> regex_test as xs)"
| "regex_test (Star c # as) [] = regex_test as []"
| "regex_test (Star c # as) (x # xs) =
     ((x = c \<and> regex_test (Star c # as) xs) \<or> regex_test as (x # xs))"

subsection \<open>The router's state\<close>

text \<open>
  The two \<open>Map\<close>s are association lists in insertion order; the code sets a key only
  after \<open>has\<close>/\<open>get\<close> found none, so a key occurs once and \<open>size\<close> is the length.
\<close>

record 'a router =
  resources :: "'a resource_scheme list"
  routeCache :: "(string \<times> 'a resource_scheme list) list"
  lastResourceUpdate :: nat
  pathRegexCache :: "(string \<times> atom list) list"

definition Router_new :: "'a resource_scheme list \<Rightarrow> 'a router" where
  "Router_new rs =
     \<lparr>resources = rs, routeCache = [], lastResourceUpdate = 0, pathRegexCache = []\<rparr>"

text \<open>\<open>resourcePath && resourcePath !== '/' ? resourcePath : ''\<close>\<close>

definition regex_key :: "string \<Rightarrow> string" where
  "regex_key resourcePath =
     (if resourcePath \<noteq> [] \<and> resourcePath \<noteq> ''/'' then resourcePath else [])"

definition generateRegex ::
  "'a router \<Rightarrow> string \<Rightarrow> (regex_error + atom list) \<times> 'a router" where
  "generateRegex r resourcePath =
     (let key = regex_key resourcePath
      in case map_of (pathRegexCache r) key of
           Some cached \<Rightarrow> (Inr cached, r)
         | None \<Rightarrow>
             (case parse_atoms (escapePath key) of
                Inl err \<Rightarrow> (Inl err, r)
              | Inr regex \<Rightarrow>
                  (Inr regex,
                   if length (pathRegexCache r) < 2000
                   then r\<lparr>pathRegexCache := pathRegexCache r @ [(key, regex)]\<rparr>
                   else r)))"

text \<open>\<open>'/a/b'.split('/')\<close> is \<open>['', 'a', 'b']\<close>: one piece more than there are slashes.\<close>

fun split_on :: "char \<Rightarrow> string \<Rightarrow> string list" where
  "split_on d [] = [[]]"
| "split_on d (c # cs) =
     (if c = d then [] # split_on d cs
      else (case split_on d cs of [] \<Rightarrow> [[c]] | w # ws \<Rightarrow> (c # w) # ws))"

definition specificness :: "'a resource_scheme \<Rightarrow> nat" where
  "specificness resource =
     (let pathSegments =
        (if path resource \<noteq> [] \<and> path resource \<noteq> ''/''
         then split_on CHR ''/'' (path resource) else [])
      in length pathSegments)"

text \<open>
  \<open>this.resources.filter(resource => this.generateRegex(resource.path).test(url))\<close>:
  the callback runs on the resources in order and updates the regex cache as it goes; a
  SyntaxError of the constructor ends the whole call.
\<close>

fun filter_matching ::
  "'a router \<Rightarrow> 'a resource_scheme list \<Rightarrow> string
     \<Rightarrow> (regex_error + 'a resource_scheme list) \<times> 'a router" where
  "filter_matching r [] url = (Inr [], r)"
| "filter_matching r (x # xs) url =
     (case generateRegex r (path x) of
        (Inl err, r') \<Rightarrow> (Inl err, r')
      | (Inr regex, r') \<Rightarrow>
          (case filter_matching r' xs url of
             (Inl err, r'') \<Rightarrow> (Inl err, r'')
           | (Inr ys, r'') \<Rightarrow> (Inr (if regex_test regex url then x # ys else ys), r'')))"

text \<open>
  \<open>matched.sort((a, b) => specificness(b) - specificness(a))\<close>: \<open>Array.prototype.sort\<close>
  is stable, as is \<open>sort_key\<close>; descending order is ascending order of the negated key.
\<close>

definition sort_by_specificness :: "'a resource_scheme list \<Rightarrow> 'a resource_scheme list" where
  "sort_by_specificness matched = sort_key (\<lambda>x. - int (specificness x)) matched"

definition matchResources ::
  "'a router \<Rightarrow> string \<Rightarrow> (regex_error + 'a resource_scheme list) \<times> 'a router" where
  "matchResources r url =
     (if resources r = [] then (Inr [], r)
      else
        let r1 = (if lastResourceUpdate r \<noteq> length (resources r)
                  then r\<lparr>routeCache := [], lastResourceUpdate := length (resources r)\<rparr>
                  else r)
        in case map_of (routeCache r1) url of
             Some cached \<Rightarrow> (Inr cached, r1)
           | None \<Rightarrow>
               (case filter_matching r1 (resources r1) url of
                  (Inl err, r2) \<Rightarrow> (Inl err, r2)
                | (Inr matched, r2) \<Rightarrow>
                    (let result = sort_by_specificness matched
                     in (Inr result,
                         if length (routeCache r2) < 1000
                         then r2\<lparr>routeCache := routeCache r2 @ [(url, result)]\<rparr>
                         else r2))))"

text \<open>A sequence of calls on one router: the state after them.\<close>

fun match_all :: "'a router \<Rightarrow> string list \<Rightarrow> 'a router" where
  "match_all r [] = r"
| "match_all r (u # us) = match_all (snd (matchResources r u)) us"

subsection \<open>The same computation without the caches\<close>

definition compile_path :: "string \<Rightarrow> regex_error + atom list" where
  "compile_path resourcePath = parse_atoms (escapePath (regex_key resourcePath))"

fun filter_afresh ::
  "'a resource_scheme list \<Rightarrow> string \<Rightarrow> regex_error + 'a resource_scheme list" where
  "filter_afresh [] url = Inr []"
| "filter_afresh (x # xs) url =
     (case compile_path (path x) of
        Inl err \<Rightarrow> Inl err
      | Inr regex \<Rightarrow>
          (case filter_afresh xs url of
             Inl err \<Rightarrow> Inl err
           | Inr ys \<Rightarrow> Inr (if regex_test regex url then x # ys else ys)))"

definition candidates_afresh ::
  "'a resource_scheme list \<Rightarrow> string \<Rightarrow> regex_error + 'a resource_scheme list" where
  "candidates_afresh rs url =
     (case filter_afresh rs url of
        Inl err \<Rightarrow> Inl err
      | Inr matched \<Rightarrow> Inr (sort_by_specificness matched))"

text \<open>
  The specification's matching rule: the request URL equals the base path, or continues
  it with \<open>/\<close> or \<open>?\<close> (and, as the dot of the pattern, no line terminator after that).
\<close>

definition base_matches :: "string \<Rightarrow> string \<Rightarrow> bool" where
  "base_matches base url =
     (take (length base) url = base \<and> continuation (drop (length base) url))"

text \<open>
  The specification's measure of specificity: the number of non-empty path segments of
  the base path.
\<close>

definition spec_specificity :: "string \<Rightarrow> nat" where
  "spec_specificity basePath =
     length (filter (\<lambda>segment. segment \<noteq> []) (split_on CHR ''/'' basePath))"

text \<open>What the caches hold between two calls on a router whose resources are \<open>rs\<close>.\<close>

definition regex_cache_ok :: "'a router \<Rightarrow> bool" where
  "regex_cache_ok r =
     list_all (\<lambda>(k, regex). parse_atoms (escapePath k) = Inr regex) (pathRegexCache r)"

definition route_cache_ok :: "'a resource_scheme list \<Rightarrow> 'a router \<Rightarrow> bool" where
  "route_cache_ok rs r =
     (resources r = rs \<and> length (routeCache r) \<le> 1000 \<and>
      (routeCache r = [] \<or> (rs \<noteq> [] \<and> lastResourceUpdate r = length rs)) \<and>
      list_all (\<lambda>(u, ys). candidates_afresh rs u = Inr ys) (routeCache r))"

section \<open>Sessions (lib/session.js, in the sources as unnamed/part_005)\<close>

subsection \<open>Values and objects\<close>

text \<open>
  A JavaScript value, as far as the session code looks at one: \<open>typeof v === 'string'\<close>,
  truthiness, and the property key \<open>String(v)\<close> it stands for.
\<close>

datatype jsval = Undefined | Null | Bool bool | Num int | Str string

fun typeof_string :: "jsval \<Rightarrow> bool" where
  "typeof_string (Str s) = True"
| "typeof_string v = False"

fun truthy :: "jsval \<Rightarrow> bool" where
  "truthy Undefined = False"
| "truthy Null = False"
| "truthy (Bool b) = b"
| "truthy (Num n) = (n \<noteq> 0)"
| "truthy (Str s) = (s \<noteq> [])"

fun show_nat :: "nat \<Rightarrow> string" where
  "show_nat n =
     (if n < 10 then [char_of (48 + n)]
      else show_nat (n div 10) @ [char_of (48 + n mod 10)])"

fun to_key :: "jsval \<Rightarrow> string" where
  "to_key Undefined = ''undefined''"
| "to_key Null = ''null''"
| "to_key (Bool b) = (if b then ''true'' else ''false'')"
| "to_key (Num n) = (if n < 0 then CHR ''-'' # show_nat (nat (- n)) else show_nat (nat n))"
| "to_key (Str s) = s"

text \<open>
  The data of a session: the fields the code reads. \<open>anonymous\<close> is the truthiness of
  the field; a missing \<open>lastActive\<close>, \<open>createdOn\<close>, \<open>uid\<close> or \<open>_rooms\<close> is \<open>None\<close>.
  Times are milliseconds, as \<open>Date.now()\<close> gives them.
\<close>

record session_data =
  id' :: jsval
  uid :: "string option"
  anonymous :: bool
  lastActive :: "int option"
  createdOn :: "int option"
  rooms :: "string list option"

record session =
  data :: session_data
  sid :: jsval

text \<open>
  The persistent store is a collaborator: the model keeps the operations issued to it,
  oldest first, and takes its answers as arguments of the callbacks.
\<close>

datatype store_op =
    Find string
  | Insert session_data
  | Update string session_data
  | RemoveStale int

datatype find_reply = FindErr string | FindNone | FindOk session_data

datatype store_reply = StoreErr string | StoreOk session_data

record options =
  maxAge :: int
  maxSessions :: int
  cleanupInterval :: int
  sessionTimeout :: int

text \<open>
  The module's two indices, one store, and the session objects. A session is an object
  shared by the indices, so the indices hold addresses into \<open>heap\<close>. \<open>socketIndex\<close>
  gives, for a session id, the ids of the live sockets bound to it. \<open>lastRun\<close> is the
  property of that name of the function \<open>cleanupInactiveSessions\<close>. Calls on sockets
  (join, leave, emit) are not part of this state.
\<close>

record world =
  heap :: "session list"
  sessionIndex :: "(string \<times> nat) list"
  userSessionIndex :: "(string \<times> (string \<times> nat) list) list"
  socketIndex :: "(string \<times> string list) list"
  sessionCount :: int
  lastRun :: "int option"
  options :: options
  ops :: "store_op list"

text \<open>
  The two indices are plain objects (\<open>{}\<close>), so reading \<open>sessionIndex[sid]\<close> for a \<open>sid\<close>
  that is no key of the index but the name of a property of \<open>Object.prototype\<close> gives
  that property, which is truthy and has no \<open>data\<close>. An assignment to the key
  \<open>__proto__\<close> sets the prototype instead of a key; sessions saved under that id, and user
  ids that are such names, are outside the model.
\<close>

definition Object_prototype_keys :: "string list" where
  "Object_prototype_keys =
     [''constructor'', ''__defineGetter__'', ''__defineSetter__'', ''hasOwnProperty'',
      ''__lookupGetter__'', ''__lookupSetter__'', ''isPrototypeOf'', ''propertyIsEnumerable'',
      ''toString'', ''valueOf'', ''__proto__'', ''toLocaleString'']"

text \<open>
  \<open>Object.keys(index)\<close> and \<open>_.each(index, ...)\<close> list the keys that are array indices (the
  decimal numerals of the numbers below \<open>2^32 - 1\<close>) first, in ascending numeric order,
  then the other keys in the order in which they were added.
\<close>

definition int_of_digits :: "string \<Rightarrow> int" where
  "int_of_digits k = foldl (\<lambda>n c. 10 * n + (of_char c - 48)) 0 k"

definition is_array_index :: "string \<Rightarrow> bool" where
  "is_array_index k =
     (k \<noteq> [] \<and> list_all (\<lambda>c. (48 :: nat) \<le> of_char c \<and> of_char c \<le> (57 :: nat)) k
      \<and> (k = ''0'' \<or> hd k \<noteq> CHR ''0'') \<and> int_of_digits k < 4294967295)"

definition own_keys_order :: "(string \<times> 'a) list \<Rightarrow> (string \<times> 'a) list" where
  "own_keys_order al =
     sort_key (\<lambda>e. int_of_digits (fst e)) (filter (\<lambda>e. is_array_index (fst e)) al)
     @ filter (\<lambda>e. \<not> is_array_index (fst e)) al"

text \<open>\<open>this.options.x = this.options.x || d\<close>\<close>

definition or_default :: "int option \<Rightarrow> int \<Rightarrow> int" where
  "or_default v d = (case v of None \<Rightarrow> d | Some n \<Rightarrow> if n = 0 then d else n)"

text \<open>
  The constructor. It also assigns the prototype's methods, so \<open>cleanupInactiveSessions\<close>
  is a new function object and has no \<open>lastRun\<close> property; nothing else in the module
  gives it one before the first sweep has run.
\<close>

definition SessionStore_new ::
  "int option \<Rightarrow> int option \<Rightarrow> int option \<Rightarrow> int option \<Rightarrow> world" where
  "SessionStore_new optMaxAge optMaxSessions optCleanupInterval optSessionTimeout =
     \<lparr>heap = [], sessionIndex = [], userSessionIndex = [], socketIndex = [],
      sessionCount = 0, lastRun = None,
      options = \<lparr>maxAge = or_default optMaxAge (30 * 24 * 60 * 60 * 1000),
                 maxSessions = or_default optMaxSessions 10000,
                 cleanupInterval = or_default optCleanupInterval 30000,
                 sessionTimeout = or_default optSessionTimeout (5 * 60 * 1000)\<rparr>,
      ops = []\<rparr>"

definition falsy_time :: "int option \<Rightarrow> bool" where
  "falsy_time t = (t = None \<or> t = Some 0)"

definition Session_new :: "session_data \<Rightarrow> int \<Rightarrow> session" where
  "Session_new d now =
     \<lparr>data = d\<lparr>createdOn := (if falsy_time (createdOn d) then Some now else createdOn d),
               lastActive := (if falsy_time (lastActive d) then Some now else lastActive d)\<rparr>,
      sid = (if truthy (id' d) then id' d else Undefined)\<rparr>"

definition anonymous_data :: session_data where
  "anonymous_data =
     \<lparr>id' = Undefined, uid = None, anonymous = True, lastActive = None, createdOn = None,
      rooms = None\<rparr>"

definition alloc :: "world \<Rightarrow> session \<Rightarrow> world \<times> nat" where
  "alloc w s = (w\<lparr>heap := heap w @ [s]\<rparr>, length (heap w))"

definition set_data :: "world \<Rightarrow> nat \<Rightarrow> session_data \<Rightarrow> world" where
  "set_data w a d = w\<lparr>heap := (heap w)[a := (heap w ! a)\<lparr>data := d\<rparr>]\<rparr>"

text \<open>\<open>userSessionIndex[u] = userSessionIndex[u] || {}; userSessionIndex[u][k] = this\<close>\<close>

definition user_index_set ::
  "(string \<times> (string \<times> nat) list) list \<Rightarrow> string \<Rightarrow> string \<Rightarrow> nat
     \<Rightarrow> (string \<times> (string \<times> nat) list) list" where
  "user_index_set usi u k a =
     AList.update u (AList.update k a (case map_of usi u of None \<Rightarrow> [] | Some m \<Rightarrow> m)) usi"

definition index_user :: "world \<Rightarrow> string option \<Rightarrow> string \<Rightarrow> nat \<Rightarrow> world" where
  "index_user w u k a =
     (case u of
        None \<Rightarrow> w
      | Some name \<Rightarrow>
          if name = [] then w
          else w\<lparr>userSessionIndex := user_index_set (userSessionIndex w) name k a\<rparr>)"

subsection \<open>\<open>Session.prototype.save\<close>\<close>

text \<open>
  The synchronous part of \<open>save\<close> on the session at address \<open>a\<close>; \<open>fresh\<close> is what
  \<open>createUniqueIdentifier()\<close> returns when it is called. The outcome is the callback
  called at once with an error, an operation issued to the store whose callback is still
  to come, or nothing at all (a non-anonymous session whose id is the empty string: no
  branch is taken and \<open>fn\<close> is never called).
\<close>

datatype pending = PendingInsert string session_data | PendingUpdate string session_data

datatype save_outcome = SaveError string | SavePending pending | SaveSilent

definition save :: "world \<Rightarrow> nat \<Rightarrow> string \<Rightarrow> world \<times> save_outcome" where
  "save w a fresh =
     (let d0 = data (heap w ! a);
          anon = anonymous d0;
          d = (if anon then d0\<lparr>anonymous := False, id' := Str fresh\<rparr> else d0);
          sid0 = id' d
      in if \<not> typeof_string (id' d) then (w, SaveError ''Invalid session ID'')
         else if anon then
           (w\<lparr>ops := ops w @ [Insert d]\<rparr>, SavePending (PendingInsert (to_key sid0) d))
         else if truthy sid0 then
           (w\<lparr>ops := ops w @ [Update (to_key sid0) (d\<lparr>id' := Undefined\<rparr>)]\<rparr>,
            SavePending (PendingUpdate (to_key sid0) (d\<lparr>id' := Undefined\<rparr>)))
         else (w, SaveSilent))"

text \<open>
  The callback of the insert or of the update, with the store's answer; the result is the
  state and the arguments \<open>save\<close> passes on to \<open>fn\<close>.
\<close>

definition save_done ::
  "world \<Rightarrow> nat \<Rightarrow> pending \<Rightarrow> store_reply
     \<Rightarrow> world \<times> string option \<times> session_data option" where
  "save_done w a p reply =
     (case p of
        PendingInsert sid0 d \<Rightarrow>
          (case reply of
             StoreErr e \<Rightarrow> (w, Some e, None)
           | StoreOk res \<Rightarrow>
               (let w1 = set_data w a res;
                    w2 = w1\<lparr>sessionIndex := AList.update sid0 a (sessionIndex w1)\<rparr>;
                    w3 = index_user w2 (uid res) (to_key (id' res)) a
                in (w3\<lparr>heap := (heap w3)[a := (heap w3 ! a)\<lparr>sid := id' res\<rparr>]\<rparr>,
                    None, Some res)))
      | PendingUpdate sid0 d \<Rightarrow>
          (case reply of
             StoreErr e \<Rightarrow> (w, Some e, Some d)
           | StoreOk res \<Rightarrow>
               (let d1 = d\<lparr>id' := Str sid0\<rparr>;
                    w1 = set_data w a d1;
                    w2 = w1\<lparr>sessionIndex := AList.update sid0 a (sessionIndex w1)\<rparr>;
                    w3 = index_user w2 (uid d1) sid0 a
                in (w3\<lparr>heap := (heap w3)[a := (heap w3 ! a)\<lparr>sid := Str sid0\<rparr>]\<rparr>,
                    None, Some d1))))"

subsection \<open>\<open>SessionStore.prototype.createSession\<close>\<close>

text \<open>
  What has happened to the caller's callback \<open>fn\<close> when a step returns: called with an
  error or a session; waiting for the callback of a save (\<open>ignore_error\<close> on the cached
  path, which calls \<open>fn(null, cached)\<close> whatever the save reported); waiting for the
  callback of \<open>find\<close>; never to be called; or not called because the step was left by a
  TypeError.
\<close>

datatype cs_outcome =
    CsDone "string option" "nat option"
  | CsSaving nat pending bool
  | CsFinding string
  | CsSilent
  | CsThrew

definition needs_touch :: "session_data \<Rightarrow> int \<Rightarrow> bool" where
  "needs_touch d now =
     (\<not> anonymous d \<and>
      (falsy_time (lastActive d) \<or> (case lastActive d of Some t \<Rightarrow> t < now - 10 * 1000 | None \<Rightarrow> False)))"

text \<open>\<open>cached && cached.data && cached.data.lastActive >= Date.now() - store.options.maxAge\<close>\<close>

definition cache_hit :: "world \<Rightarrow> string \<Rightarrow> int \<Rightarrow> nat option" where
  "cache_hit w s now =
     (case map_of (sessionIndex w) s of
        None \<Rightarrow> None
      | Some a \<Rightarrow>
          (case lastActive (data (heap w ! a)) of
             None \<Rightarrow> None
           | Some t \<Rightarrow> if t \<ge> now - maxAge (options w) then Some a else None))"

definition touch_and_save :: "world \<Rightarrow> nat \<Rightarrow> int \<Rightarrow> string \<Rightarrow> bool \<Rightarrow> world \<times> cs_outcome" where
  "touch_and_save w a now fresh ignore_error =
     (let w1 = set_data w a ((data (heap w ! a))\<lparr>lastActive := Some now\<rparr>)
      in case save w1 a fresh of
           (w2, SaveError e) \<Rightarrow> (w2, CsDone (if ignore_error then None else Some e) (Some a))
         | (w2, SavePending p) \<Rightarrow> (w2, CsSaving a p ignore_error)
         | (w2, SaveSilent) \<Rightarrow> (w2, CsSilent))"

text \<open>
  The synchronous part of \<open>createSession(sid, fn)\<close> at time \<open>now\<close>. The third component
  says whether a sweep was put on the next tick. The path that serves a cached session
  returns before the test \<open>this.cleanupInactiveSessions.lastRun < Date.now() - 60 * 1000\<close>;
  the other paths reach it, and with \<open>lastRun\<close> undefined the comparison is with NaN and
  is false.
\<close>

definition createSession ::
  "world \<Rightarrow> string option \<Rightarrow> int \<Rightarrow> string \<Rightarrow> world \<times> cs_outcome \<times> bool" where
  "createSession w sid0 now fresh =
     (let sweep_due = (case lastRun w of None \<Rightarrow> False | Some t \<Rightarrow> t < now - 60 * 1000);
          without_sid =
            (case alloc w (Session_new anonymous_data now) of
               (w1, a) \<Rightarrow> (w1, CsDone None (Some a), sweep_due))
      in case sid0 of
           None \<Rightarrow> without_sid
         | Some s \<Rightarrow>
             if s = [] then without_sid
             else
               (case cache_hit w s now of
                  Some a \<Rightarrow>
                    if needs_touch (data (heap w ! a)) now
                    then (case touch_and_save w a now fresh True of
                            (w1, out) \<Rightarrow> (w1, out, False))
                    else (w, CsDone None (Some a), False)
                | None \<Rightarrow> (w\<lparr>ops := ops w @ [Find s]\<rparr>, CsFinding s, sweep_due)))"

text \<open>
  The callback of \<open>find({id: sid})\<close>, at time \<open>now\<close>, with the store's answer. When
  \<open>sessionIndex[sid]\<close> is an inherited property, that property is taken for the session:
  nothing is indexed under \<open>sid\<close>, and the callback is left by a TypeError at the first
  read of a field of \<open>sess.data\<close>, after \<open>userSessionIndex[s.uid] = userSessionIndex[s.uid] || {}\<close>
  if the document has a \<open>uid\<close>.
\<close>

definition createSession_found ::
  "world \<Rightarrow> string \<Rightarrow> find_reply \<Rightarrow> int \<Rightarrow> string \<Rightarrow> world \<times> cs_outcome" where
  "createSession_found w s reply now fresh =
     (case reply of
        FindErr e \<Rightarrow> (w, CsDone (Some e) None)
      | _ \<Rightarrow>
          (let stale =
                 (case reply of
                    FindOk doc \<Rightarrow>
                      (case lastActive doc of
                         Some t \<Rightarrow> t < now - maxAge (options w)
                       | None \<Rightarrow> False)
                  | _ \<Rightarrow> True);
               doc = (case reply of
                        FindOk doc \<Rightarrow> if stale then anonymous_data else doc
                      | _ \<Rightarrow> anonymous_data);
               key = (if stale then ''null'' else s);
               known = map_of (sessionIndex w) key
           in if known = None \<and> key \<in> set Object_prototype_keys
              then
                (case uid doc of
                   None \<Rightarrow> (w, CsThrew)
                 | Some name \<Rightarrow>
                     if name = [] then (w, CsThrew)
                     else (w\<lparr>userSessionIndex :=
                               AList.update name
                                 (case map_of (userSessionIndex w) name of
                                    None \<Rightarrow> []
                                  | Some m \<Rightarrow> m)
                                 (userSessionIndex w)\<rparr>,
                           CsThrew))
              else
                let wa = (case known of
                            Some a \<Rightarrow> (w, a)
                          | None \<Rightarrow> alloc w (Session_new doc now));
                    w1 = fst wa;
                    a = snd wa;
                    w2 = (if \<not> stale \<and> known = None
                          then w1\<lparr>sessionIndex := sessionIndex w1 @ [(s, a)],
                                 sessionCount := sessionCount w1 + 1\<rparr>
                          else w1);
                    w3 = index_user w2 (uid doc) (to_key (id' (data (heap w2 ! a)))) a
                in if needs_touch (data (heap w3 ! a)) now
                   then touch_and_save w3 a now fresh False
                   else (w3, CsDone None (Some a))))"

text \<open>The callback of a save that \<open>createSession\<close> started.\<close>

definition createSession_saved ::
  "world \<Rightarrow> nat \<Rightarrow> pending \<Rightarrow> bool \<Rightarrow> store_reply \<Rightarrow> world \<times> cs_outcome" where
  "createSession_saved w a p ignore_error reply =
     (case save_done w a p reply of
        (w1, err, res) \<Rightarrow> (w1, CsDone (if ignore_error then None else err) (Some a)))"

subsection \<open>The sweep\<close>

text \<open>
  \<open>if (sessionIndex[sid])\<close> also holds for an inherited property; \<open>delete\<close> then removes
  nothing, and the count goes down all the same.
\<close>

definition removeSessionFromMemory :: "world \<Rightarrow> string \<Rightarrow> world" where
  "removeSessionFromMemory w s =
     (let w1 = (if map_of (sessionIndex w) s \<noteq> None \<or> s \<in> set Object_prototype_keys
                then w\<lparr>sessionIndex := AList.delete s (sessionIndex w),
                       sessionCount := sessionCount w - 1\<rparr>
                else w)
      in w1\<lparr>userSessionIndex := map (\<lambda>(u, m). (u, AList.delete s m)) (userSessionIndex w1),
             socketIndex := AList.delete s (socketIndex w1)\<rparr>)"

text \<open>\<open>session.data.lastActive < timeoutThreshold && _.isEmpty(this.socketIndex[sid])\<close>\<close>

definition no_live_socket :: "world \<Rightarrow> string \<Rightarrow> bool" where
  "no_live_socket w s = (case map_of (socketIndex w) s of None \<Rightarrow> True | Some cs \<Rightarrow> cs = [])"

definition idle :: "world \<Rightarrow> int \<Rightarrow> string \<times> nat \<Rightarrow> bool" where
  "idle w timeoutThreshold e =
     ((case lastActive (data (heap w ! snd e)) of
         Some t \<Rightarrow> t < timeoutThreshold
       | None \<Rightarrow> False)
      \<and> no_live_socket w (fst e))"

text \<open>
  The sessions over the cap, oldest first; the sort is stable, so sessions with the same
  \<open>lastActive\<close> stay in the order of \<open>Object.keys\<close>. The comparator
  \<open>a.lastActive - b.lastActive\<close> is NaN where a \<open>lastActive\<close> is missing and the order is
  then up to the engine; the model sorts such a session as if its time were 0.
\<close>

definition oldestSessions :: "world \<Rightarrow> string list" where
  "oldestSessions w =
     (if sessionCount w > maxSessions (options w) then
        map fst
          (take (nat (sessionCount w - maxSessions (options w)))
             (sort_key (\<lambda>e. case lastActive (data (heap w ! snd e)) of Some t \<Rightarrow> t | None \<Rightarrow> 0)
                (own_keys_order (sessionIndex w))))
      else [])"

definition cleanupInactiveSessions :: "world \<Rightarrow> int \<Rightarrow> world" where
  "cleanupInactiveSessions w now =
     (let timeoutThreshold = now - sessionTimeout (options w);
          inactiveSessions =
            map fst (filter (idle w timeoutThreshold) (own_keys_order (sessionIndex w)))
            @ oldestSessions w;
          w1 = foldl removeSessionFromMemory w inactiveSessions;
          w2 = w1\<lparr>sessionCount := int (length (sessionIndex w1))\<rparr>;
          w3 = w2\<lparr>ops := ops w2 @ [RemoveStale (now - maxAge (options w2))]\<rparr>
      in w3\<lparr>lastRun := Some now\<rparr>)"

text \<open>The writes among the operations issued to the store.\<close>

fun is_write :: "store_op \<Rightarrow> bool" where
  "is_write (Insert d) = True"
| "is_write (Update s d) = True"
| "is_write op = False"

definition writes :: "world \<Rightarrow> nat" where
  "writes w = length (filter is_write (ops w))"


subsection \<open>Sequences of resolutions\<close>

text \<open>
  The steps a store takes while sessions are resolved: a call of \<open>createSession\<close>,
  followed on the next tick by the sweep if the call scheduled one; the callback of a
  \<open>find\<close>; the callback of a save. \<open>run_steps\<close> also tells whether any call scheduled a sweep.
\<close>

datatype step =
    Resolve "string option" int string
  | Found string find_reply int string
  | Saved nat pending bool store_reply

definition run_step :: "world \<Rightarrow> step \<Rightarrow> world \<times> bool" where
  "run_step w e =
     (case e of
        Resolve sid0 now fresh \<Rightarrow>
          (case createSession w sid0 now fresh of
             (w1, out, scheduled) \<Rightarrow>
               (if scheduled then cleanupInactiveSessions w1 now else w1, scheduled))
      | Found s reply now fresh \<Rightarrow> (fst (createSession_found w s reply now fresh), False)
      | Saved a p ignore_error reply \<Rightarrow> (fst (createSession_saved w a p ignore_error reply), False))"

fun run_steps :: "world \<Rightarrow> step list \<Rightarrow> world \<times> bool" where
  "run_steps w [] = (w, False)"
| "run_steps w (e # es) =
     (case run_step w e of (w1, b) \<Rightarrow> (case run_steps w1 es of (w2, b') \<Rightarrow> (w2, b \<or> b')))"

definition indexed :: "world \<Rightarrow> string set" where
  "indexed w = set (map fst (sessionIndex w))"

text \<open>The session ids the sweep at time \<open>now\<close> removes: the idle ones, then those over the cap.\<close>

definition swept :: "world \<Rightarrow> int \<Rightarrow> string list" where
  "swept w now =
     map fst (filter (idle w (now - sessionTimeout (options w))) (own_keys_order (sessionIndex w)))
     @ oldestSessions w"

text \<open>Worlds used as examples: one cached session, with a string id and with a numeric id.\<close>

definition example_world :: world where
  "example_world =
     \<lparr>heap = [\<lparr>data = \<lparr>id' = Str ''s1'', uid = None, anonymous = False,
                         lastActive = Some 1000, createdOn = Some 500, rooms = None\<rparr>,
               sid = Str ''s1''\<rparr>],
      sessionIndex = [(''s1'', 0)], userSessionIndex = [], socketIndex = [],
      sessionCount = 1, lastRun = None,
      options = \<lparr>maxAge = 2592000000, maxSessions = 10000, cleanupInterval = 30000,
                 sessionTimeout = 300000\<rparr>,
      ops = []\<rparr>"

definition example_world_numeric_id :: world where
  "example_world_numeric_id =
     example_world\<lparr>heap := [\<lparr>data = \<lparr>id' = Num 7, uid = None, anonymous = False,
                         lastActive = Some 1000, createdOn = Some 500, rooms = None\<rparr>,
               sid = Num 7\<rparr>]\<rparr>"



section \<open>The request context and the error responder (lib/context.js, lib/doh.js)\<close>

subsection \<open>Errors and the response\<close>

text \<open>
  An error value, as far as the code looks at one: its \<open>statusCode\<close> and \<open>status\<close>
  (numbers, or missing), what \<open>String\<close> makes of it, and whether \<open>JSON.stringify\<close> of
  its payload succeeds. A thrown value is an instance of \<open>Error\<close>, another object, or a
  primitive.
\<close>

record js_error =
  message :: string
  error_statusCode :: "int option"
  error_status :: "int option"
  serializable :: bool

datatype thrown = AnError js_error | AnObject js_error | APrimitive jsval

fun truthy_thrown :: "thrown \<Rightarrow> bool" where
  "truthy_thrown (APrimitive v) = truthy v"
| "truthy_thrown e = True"

fun statusCode_of :: "thrown \<Rightarrow> int option" where
  "statusCode_of (AnError e) = error_statusCode e"
| "statusCode_of (AnObject e) = error_statusCode e"
| "statusCode_of (APrimitive v) = None"

fun status_of :: "thrown \<Rightarrow> int option" where
  "status_of (AnError e) = error_status e"
| "status_of (AnObject e) = error_status e"
| "status_of (APrimitive v) = None"

fun can_serialize :: "thrown \<Rightarrow> bool" where
  "can_serialize (AnError e) = serializable e"
| "can_serialize (AnObject e) = serializable e"
| "can_serialize (APrimitive v) = True"

text \<open>\<open>x || d\<close> on a number that may be missing.\<close>

definition num_or :: "int option \<Rightarrow> int \<Rightarrow> int" where
  "num_or v d = (case v of None \<Rightarrow> d | Some n \<Rightarrow> if n = 0 then d else n)"

text \<open>
  The response, as the context and the responder use it. A live response is Node's
  \<open>ServerResponse\<close>: \<open>setHeader\<close> stores a header, \<open>end\<close> passes the body on and marks
  the response finished (\<open>finished\<close> and \<open>writableEnded\<close> are the same flag) with its
  headers sent. A response that is not live is the object the constructor of \<open>Context\<close>
  makes when it is given none: \<open>setHeader\<close> and \<open>end\<close> do nothing, \<open>getHeader\<close>
  returns undefined, and it has no \<open>finished\<close> flag. What \<open>end\<close> was given is kept in
  \<open>written\<close>: a text, the JSON of an error's payload, or nothing.
\<close>

datatype chunk = Text string | ErrorBody thrown | NoBody

record response =
  statusCode :: int
  headersSent :: bool
  finished :: bool
  headers :: "(string \<times> string) list"
  written :: "chunk list"
  live :: bool

definition stub_response :: response where
  "stub_response =
     \<lparr>statusCode = 200, headersSent = False, finished = False, headers = [], written = [],
      live = False\<rparr>"

definition setHeader :: "response \<Rightarrow> string \<Rightarrow> string \<Rightarrow> response" where
  "setHeader r h v = (if live r then r\<lparr>headers := AList.update h v (headers r)\<rparr> else r)"

definition getHeader :: "response \<Rightarrow> string \<Rightarrow> string option" where
  "getHeader r h = (if live r then map_of (headers r) h else None)"

definition res_end :: "response \<Rightarrow> chunk \<Rightarrow> response" where
  "res_end r c =
     (if live r \<and> \<not> finished r
      then r\<lparr>finished := True, headersSent := True, written := written r @ [c]\<rparr>
      else r)"

definition writableEnded :: "response \<Rightarrow> bool" where
  "writableEnded r = (live r \<and> finished r)"

subsection \<open>The responder of \<open>doh.createResponder()\<close>\<close>

definition normalizeStatus :: "thrown \<Rightarrow> int" where
  "normalizeStatus err =
     (let status = (case statusCode_of err of
                      None \<Rightarrow> status_of err
                    | Some n \<Rightarrow> if n = 0 then status_of err else Some n)
      in case status of
           None \<Rightarrow> 500
         | Some n \<Rightarrow> if 400 \<le> n \<and> n < 600 then n else 500)"

definition safeEnd :: "response \<Rightarrow> response" where
  "safeEnd r = (if \<not> writableEnded r then res_end r NoBody else r)"

definition respond :: "thrown \<Rightarrow> response \<Rightarrow> response" where
  "respond err r =
     (if \<not> truthy_thrown err \<or> writableEnded r then r
      else
        let status0 = normalizeStatus err;
            status = (if status0 = 500 \<and> 400 \<le> statusCode r \<and> statusCode r < 600
                      then statusCode r else status0);
            r1 = (if \<not> headersSent r
                  then setHeader (r\<lparr>statusCode := status\<rparr>) ''Content-Type''
                         ''application/json; charset=utf-8''
                  else r)
        in if can_serialize err then res_end r1 (ErrorBody err) else safeEnd r1)"

subsection \<open>\<open>Context.done\<close>\<close>

text \<open>
  The payload of a successful completion: an object or array, with the text that
  \<open>JSON.stringify\<close> (with the replacer that drops repeated objects) makes of it, or
  \<open>None\<close> when that throws; a string; a number (NaN apart); a boolean; or nothing
  (\<open>undefined\<close>, \<open>null\<close>).
\<close>

datatype payload = PObject "string option" | PText string | PNumber int | PBool bool | PNothing

text \<open>
  A number other than 0 and the boolean \<open>true\<close> are truthy, so \<open>response || ''\<close> keeps
  them as the body; \<open>Buffer.byteLength\<close> throws a TypeError on such a body (named here
  by its code).
\<close>

fun truthy_primitive :: "payload \<Rightarrow> bool" where
  "truthy_primitive (PNumber n) = (n \<noteq> 0)"
| "truthy_primitive (PBool b) = b"
| "truthy_primitive p = False"

definition byteLength_type_error :: thrown where
  "byteLength_type_error =
     AnError \<lparr>message = ''ERR_INVALID_ARG_TYPE'', error_statusCode = None,
              error_status = None, serializable = True\<rparr>"

definition internal_error_body :: string where
  "internal_error_body =
     ''{'' @ [CHR 0x22] @ ''message'' @ [CHR 0x22] @ '':'' @ [CHR 0x22] @
     ''Internal Server Error'' @ [CHR 0x22] @ ''}''"

definition no_body_status :: "int \<Rightarrow> bool" where
  "no_body_status statusCode0 = (statusCode0 = 204 \<or> statusCode0 = 304)"

text \<open>
  \<open>Buffer.byteLength(body)\<close>, the number of bytes of the UTF-8 encoding. A character of
  the model is a code unit below 256: one byte below 128, two from 128 on.
\<close>

definition byteLength :: "string \<Rightarrow> nat" where
  "byteLength body = sum_list (map (\<lambda>c. if of_char c < (128 :: nat) then 1 else 2) body)"

definition header_list :: "int \<Rightarrow> string \<Rightarrow> string \<Rightarrow> (string \<times> string) list" where
  "header_list statusCode0 body contentType =
     [(''Cache-Control'', ''no-cache, no-store, must-revalidate''),
      (''Pragma'', ''no-cache''),
      (''Expires'', ''0''),
      (''Content-Type'', contentType)] @
     (if \<not> no_body_status statusCode0 \<and> body \<noteq> []
      then [(''Content-Length'', show_nat (byteLength body))] else [])"

definition set_if_absent :: "response \<Rightarrow> string \<times> string \<Rightarrow> response" where
  "set_if_absent r hv =
     (if \<not> headersSent r \<and> (case getHeader r (fst hv) of None \<Rightarrow> True | Some v \<Rightarrow> v = [])
      then setHeader r (fst hv) (snd hv) else r)"

definition setHeaders :: "response \<Rightarrow> int \<Rightarrow> string \<Rightarrow> string \<Rightarrow> response" where
  "setHeaders r statusCode0 body contentType =
     foldl set_if_absent r (header_list statusCode0 body contentType)"

text \<open>
  Whether \<open>done(err, response)\<close> is left by an exception (the promise it returns is
  rejected): on the way without an error, \<open>_setHeaders\<close> computes the \<open>Content-Length\<close>
  of a truthy body, unless the status is 204 or 304, before it sets any header.
\<close>

definition done_throws :: "response \<Rightarrow> thrown option \<Rightarrow> payload \<Rightarrow> bool" where
  "done_throws r err payload0 =
     (\<not> (live r \<and> finished r)
      \<and> (case err of None \<Rightarrow> True | Some e \<Rightarrow> \<not> truthy_thrown e)
      \<and> truthy_primitive payload0
      \<and> \<not> no_body_status (if statusCode r = 0 then 200 else statusCode r))"

text \<open>The response after \<open>done(err, response)\<close>.\<close>

definition Context_done :: "response \<Rightarrow> thrown option \<Rightarrow> payload \<Rightarrow> response" where
  "Context_done r err payload0 =
     (if live r \<and> finished r then r
      else
        let statusCode0 = (if statusCode r = 0 then 200 else statusCode r)
        in case (case err of None \<Rightarrow> None | Some e \<Rightarrow> if truthy_thrown e then Some e else None) of
             Some e \<Rightarrow> respond e (r\<lparr>statusCode := num_or (statusCode_of e) 400\<rparr>)
           | None \<Rightarrow>
               if truthy_primitive payload0 \<and> \<not> no_body_status statusCode0 then r
               else
                 (let r1 = (case payload0 of PObject None \<Rightarrow> r\<lparr>statusCode := 500\<rparr> | _ \<Rightarrow> r);
                      responseBody = (case payload0 of
                                        PObject (Some json) \<Rightarrow> json
                                      | PObject None \<Rightarrow> internal_error_body
                                      | PText s \<Rightarrow> s
                                      | _ \<Rightarrow> []);
                      contentType = (case payload0 of
                                       PObject j \<Rightarrow> ''application/json''
                                     | _ \<Rightarrow> ''text/html; charset=utf-8'');
                      r2 = setHeaders r1 statusCode0 responseBody contentType
                  in if \<not> no_body_status statusCode0 then res_end r2 (Text responseBody)
                     else res_end r2 NoBody))"

text \<open>
  The context of a request for a resource: its response (the one given, or the inert
  object) and the URL relative to the resource's base path.
\<close>

record request_context =
  ctx_res :: response
  ctx_url :: string

definition extractUrl :: "string \<Rightarrow> string \<Rightarrow> string" where
  "extractUrl basePath fullUrl =
     (let relativeUrl = drop (length basePath) fullUrl
      in case relativeUrl of
           [] \<Rightarrow> ''/''
         | c # cs \<Rightarrow> if c = CHR ''/'' then relativeUrl else CHR ''/'' # relativeUrl)"

definition Context_new :: "'a resource_scheme \<Rightarrow> string option \<Rightarrow> response option \<Rightarrow> request_context" where
  "Context_new resource0 req_url0 res0 =
     \<lparr>ctx_res = (case res0 of None \<Rightarrow> stub_response | Some r \<Rightarrow> r),
      ctx_url = extractUrl (path resource0) (case req_url0 of None \<Rightarrow> [] | Some u \<Rightarrow> u)\<rparr>"

section \<open>Router: dispatching a request (lib/router.js, \<open>route\<close>)\<close>

subsection \<open>What a handler does\<close>

text \<open>
  The router sees a handler through the calls it makes and the events around it. A
  handler is given as its behaviour: the calls it makes while \<open>fn()\<close> runs, whether
  \<open>fn()\<close> then throws, whether it returned a thenable, and what happens later, turn by
  turn of the event loop: calls made from a callback of the handler, the response
  emitting \<open>finish\<close> or \<open>close\<close>, the returned promise being fulfilled or rejected.
\<close>

datatype call =
    CallDone "thrown option" payload
  | CallNext "thrown option"
  | EndResponse chunk

datatype event =
    Calls "call list"
  | Finish
  | Fulfilled
  | Rejected thrown

record behaviour =
  first_calls :: "call list"
  throws :: "thrown option"
  returns_promise :: bool
  later :: "event list"

datatype hook = HookOk | HookFails thrown | HookSilent

record handler_resource = resource +
  handle :: behaviour
  external :: "(string \<times> behaviour) list"
  handleSession :: "hook option"

subsection \<open>One candidate\<close>

text \<open>
  The variables of the promise executor in \<open>route\<close> for one candidate, with the shared
  variable \<open>handled\<close> and the response. \<open>outcome\<close> is the state of the promise the loop
  awaits. \<open>awaiting_done\<close> lists the calls of the wrapper \<open>ctx.done\<close> that have run
  \<open>originalDone\<close> and wait, at their \<open>await\<close>, for the microtask that goes on after it:
  \<open>None\<close> when \<open>originalDone\<close> returned, the exception when it threw. \<open>has_next\<close> tells
  whether the handler was given \<open>next\<close> (a method of \<open>resource.external\<close> is not).
\<close>

datatype promise_state = Pending | Resolved | Rejected_with thrown

record candidate =
  cand_res :: response
  settled :: bool
  handled :: bool
  nextRequested :: bool
  outcome :: promise_state
  awaiting_done :: "thrown option list"
  has_next :: bool

definition resolve :: "candidate \<Rightarrow> candidate" where
  "resolve c = (if outcome c = Pending then c\<lparr>outcome := Resolved\<rparr> else c)"

definition reject :: "candidate \<Rightarrow> thrown \<Rightarrow> candidate" where
  "reject c err = (if outcome c = Pending then c\<lparr>outcome := Rejected_with err\<rparr> else c)"

text \<open>
  A call made by the handler. The wrapper \<open>ctx.done\<close> returns at once when the candidate
  has settled; otherwise it runs \<open>Context.done\<close>, which writes the response or throws,
  and the rest of the wrapper waits for its microtask.
\<close>

fun do_call :: "candidate \<Rightarrow> call \<Rightarrow> candidate" where
  "do_call c (CallDone err payload0) =
     (if settled c then c
      else c\<lparr>cand_res := Context_done (cand_res c) err payload0,
             awaiting_done :=
               awaiting_done c
               @ [if done_throws (cand_res c) err payload0 then Some byteLength_type_error
                  else None]\<rparr>)"
| "do_call c (CallNext err) =
     (if \<not> has_next c \<or> settled c then c
      else
        let c1 = c\<lparr>nextRequested := True, settled := True\<rparr>
        in case err of
             None \<Rightarrow> resolve c1
           | Some e \<Rightarrow> if truthy_thrown e then reject c1 e else resolve c1)"
| "do_call c (EndResponse ch) = c\<lparr>cand_res := res_end (cand_res c) ch\<rparr>"

text \<open>
  The microtasks after a turn, one for each waiting call of the wrapper, in order:
  \<open>handled = true; settled = true; cleanup(); resolve();\<close> after a call that returned,
  \<open>settled = true; cleanup(); reject(err);\<close> after one that threw.
\<close>

definition after_done :: "candidate \<Rightarrow> thrown option \<Rightarrow> candidate" where
  "after_done c r =
     (case r of
        None \<Rightarrow> resolve (c\<lparr>handled := True, settled := True\<rparr>)
      | Some err \<Rightarrow> reject (c\<lparr>settled := True\<rparr>) err)"

definition flush :: "candidate \<Rightarrow> candidate" where
  "flush c = (foldl after_done c (awaiting_done c))\<lparr>awaiting_done := []\<rparr>"

text \<open>\<open>invokeHandler(fn)\<close>: the synchronous part, its \<open>catch\<close>, then the microtasks.\<close>

definition invokeHandler :: "candidate \<Rightarrow> behaviour \<Rightarrow> candidate" where
  "invokeHandler c b =
     (let c1 = foldl do_call c (first_calls b);
          c2 = (case throws b of
                  None \<Rightarrow> c1
                | Some err \<Rightarrow> if settled c1 then c1 else reject (c1\<lparr>settled := True\<rparr>) err)
      in flush c2)"

definition do_event :: "behaviour \<Rightarrow> candidate \<Rightarrow> event \<Rightarrow> candidate" where
  "do_event b c ev =
     (case ev of
        Calls cs \<Rightarrow> flush (foldl do_call c cs)
      | Finish \<Rightarrow> if settled c then c else resolve (c\<lparr>settled := True, handled := True\<rparr>)
      | Fulfilled \<Rightarrow>
          if returns_promise b \<and> throws b = None \<and> \<not> settled c
          then resolve (c\<lparr>settled := True\<rparr>) else c
      | Rejected err \<Rightarrow>
          if returns_promise b \<and> throws b = None \<and> \<not> settled c
          then reject (c\<lparr>settled := True\<rparr>) err else c)"

text \<open>
  The loop goes on as soon as the promise has settled; what the handler does after that
  is behind the guards (\<open>if (settled) return\<close>, listeners removed) and is left out.
\<close>

fun run_later :: "behaviour \<Rightarrow> candidate \<Rightarrow> event list \<Rightarrow> candidate" where
  "run_later b c [] = c"
| "run_later b c (ev # evs) =
     (if outcome c \<noteq> Pending then c else run_later b (do_event b c ev) evs)"

text \<open>
  \<open>resource.external\<close> is the plain object the constructor of \<open>Resource\<close> fills, so
  \<open>typeof resource.external[furl] === 'function'\<close> also holds when \<open>furl\<close> is no key of it
  but the name of a method of \<open>Object.prototype\<close> (\<open>__proto__\<close> is an object, not a
  function). Called with \<open>(ctx.body, ctx, ctx.done)\<close>, \<open>__defineGetter__\<close> and
  \<open>__defineSetter__\<close> throw a TypeError, since \<open>ctx\<close> is not callable; the others return
  a value that is no thenable and call nothing, and no event follows in the model. (An
  \<open>external\<close> with a method named \<open>then\<close>, which would make the result of \<open>valueOf\<close> a
  thenable, is outside the model.)
\<close>

definition Object_prototype_method :: "string \<Rightarrow> behaviour option" where
  "Object_prototype_method name =
     (if name = ''__defineGetter__'' \<or> name = ''__defineSetter__''
      then Some \<lparr>first_calls = [],
                 throws = Some (AnError \<lparr>message = ''Object.prototype.'' @ name
                                                    @ '': Expecting function'',
                                         error_statusCode = None, error_status = None,
                                         serializable = True\<rparr>),
                 returns_promise = False, later = []\<rparr>
      else if name \<in> set Object_prototype_keys \<and> name \<noteq> ''__proto__''
      then Some \<lparr>first_calls = [], throws = None, returns_promise = False, later = []\<rparr>
      else None)"

definition external_method :: "'a handler_resource_scheme \<Rightarrow> string \<Rightarrow> behaviour option" where
  "external_method x name =
     (case map_of (external x) name of
        Some b \<Rightarrow> Some b
      | None \<Rightarrow> Object_prototype_method name)"

text \<open>\<open>ctx.url.replace('/', '')\<close>: the first slash goes.\<close>

definition furl_of :: "string \<Rightarrow> string" where
  "furl_of u = remove1 CHR ''/'' u"

definition run_candidate :: "'a handler_resource_scheme \<Rightarrow> string \<Rightarrow> response \<Rightarrow> candidate" where
  "run_candidate x req_url0 res0 =
     (let ctx = Context_new x (Some req_url0) (Some res0);
          furl = furl_of (ctx_url ctx);
          c0 = \<lparr>cand_res = ctx_res ctx, settled = False, handled = False,
                nextRequested = False, outcome = Pending, awaiting_done = [],
                has_next = True\<rparr>
      in case external_method x furl of
           Some b \<Rightarrow> run_later b (invokeHandler (c0\<lparr>has_next := False\<rparr>) b) (later b)
         | None \<Rightarrow> run_later (handle x) (invokeHandler c0 (handle x)) (later (handle x)))"

subsection \<open>The loop over the candidates and \<open>route\<close>\<close>

datatype 'a loop_result =
    LoopDone response bool "'a list"
  | LoopThrew thrown response "'a list"
  | LoopHung response "'a list"

text \<open>
  The \<open>for\<close> loop, with the response, the variable \<open>handled\<close> and the candidates whose
  handler has been invoked so far.
\<close>

fun try_candidates ::
  "string \<Rightarrow> response \<Rightarrow> bool \<Rightarrow> 'a handler_resource_scheme list
     \<Rightarrow> 'a handler_resource_scheme list \<Rightarrow> 'a handler_resource_scheme loop_result" where
  "try_candidates req_url0 res0 handled0 [] tried = LoopDone res0 handled0 tried"
| "try_candidates req_url0 res0 handled0 (x # xs) tried =
     (if handled0 \<or> writableEnded res0 then LoopDone res0 handled0 tried
      else
        let c = run_candidate x req_url0 res0
        in case outcome c of
             Pending \<Rightarrow> LoopHung (cand_res c) (tried @ [x])
           | Rejected_with err \<Rightarrow> LoopThrew err (cand_res c) (tried @ [x])
           | Resolved \<Rightarrow>
               if nextRequested c
               then try_candidates req_url0 (cand_res c) (handled c) xs (tried @ [x])
               else if handled c \<or> writableEnded (cand_res c) \<or> headersSent (cand_res c)
               then LoopDone (cand_res c) (handled c) (tried @ [x])
               else try_candidates req_url0 (cand_res c) (handled c) xs (tried @ [x]))"

text \<open>
  \<open>handleSessions\<close>: \<open>async.forEach\<close> calls every hook; the first error it is called
  back with rejects the promise (hooks call back in the order of the resources here), and
  when none fails a hook that never calls back leaves it pending.
\<close>

datatype sessions_result = SessionsOk | SessionsFailed thrown | SessionsHang

fun hook_errors :: "'a handler_resource_scheme list \<Rightarrow> thrown list" where
  "hook_errors [] = []"
| "hook_errors (x # xs) =
     (case handleSession x of
        Some (HookFails err) \<Rightarrow> if truthy_thrown err then err # hook_errors xs else hook_errors xs
      | _ \<Rightarrow> hook_errors xs)"

definition handleSessions :: "'a handler_resource_scheme list \<Rightarrow> sessions_result" where
  "handleSessions rs =
     (case hook_errors rs of
        err # errs \<Rightarrow> SessionsFailed err
      | [] \<Rightarrow> if list_ex (\<lambda>x. handleSession x = Some HookSilent) rs then SessionsHang
              else SessionsOk)"

text \<open>
  The \<open>catch\<close> of \<open>route\<close>: a value that is not an instance of \<open>Error\<close> is replaced by
  \<open>{ message: String(err || 'Internal Server Error'), statusCode: 500 }\<close>.
\<close>

fun wrap_thrown :: "thrown \<Rightarrow> thrown" where
  "wrap_thrown (AnError e) = AnError e"
| "wrap_thrown (AnObject e) =
     AnObject \<lparr>message = ''[object Object]'', error_statusCode = Some 500,
               error_status = None, serializable = True\<rparr>"
| "wrap_thrown (APrimitive v) =
     AnObject \<lparr>message = (if truthy v then to_key v else ''Internal Server Error''),
               error_statusCode = Some 500, error_status = None, serializable = True\<rparr>"

text \<open>
  What \<open>route\<close> leaves behind: the router with its caches, the flag \<open>req._routed\<close>, the
  response, the candidates whose handler was invoked, the value and the status code with
  which the responder was called from the \<open>catch\<close> (if it was), whether \<open>handle404\<close> ran,
  and whether the call never gets past an \<open>await\<close>.
\<close>

record 'a route_result =
  out_router :: "'a router"
  out_routed :: bool
  out_res :: response
  out_tried :: "'a resource_scheme list"
  out_handoff :: "(thrown \<times> int) option"
  out_404 :: bool
  out_hung :: bool

definition route_catch ::
  "'a router \<Rightarrow> response \<Rightarrow> 'a resource_scheme list \<Rightarrow> thrown \<Rightarrow> 'a route_result" where
  "route_catch r res0 tried err =
     (let wrapped = wrap_thrown err;
          res1 = res0\<lparr>statusCode := num_or (statusCode_of wrapped) 500\<rparr>
      in \<lparr>out_router = r, out_routed = True, out_res = respond wrapped res1,
          out_tried = tried, out_handoff = Some (wrapped, statusCode res1),
          out_404 = False, out_hung = False\<rparr>)"

definition not_found_error :: thrown where
  "not_found_error =
     AnObject \<lparr>message = ''Resource not found'', error_statusCode = None,
               error_status = None, serializable = True\<rparr>"

definition handle404 :: "response \<Rightarrow> response" where
  "handle404 res0 = respond not_found_error (res0\<lparr>statusCode := 404\<rparr>)"

definition regex_syntax_error :: thrown where
  "regex_syntax_error =
     AnError \<lparr>message = ''Invalid regular expression'', error_statusCode = None,
              error_status = None, serializable = True\<rparr>"

definition route ::
  "'a handler_resource_ext router \<Rightarrow> bool \<Rightarrow> string \<Rightarrow> response
     \<Rightarrow> 'a handler_resource_ext route_result" where
  "route r routed req_url0 res0 =
     (if routed then
        \<lparr>out_router = r, out_routed = True, out_res = res0, out_tried = [],
         out_handoff = None, out_404 = False, out_hung = False\<rparr>
      else
        case handleSessions (resources r) of
          SessionsHang \<Rightarrow>
            \<lparr>out_router = r, out_routed = True, out_res = res0, out_tried = [],
             out_handoff = None, out_404 = False, out_hung = True\<rparr>
        | SessionsFailed err \<Rightarrow> route_catch r res0 [] err
        | SessionsOk \<Rightarrow>
            (case matchResources r req_url0 of
               (Inl e, r1) \<Rightarrow> route_catch r1 res0 [] regex_syntax_error
             | (Inr matchingResources, r1) \<Rightarrow>
                 (case try_candidates req_url0 res0 False matchingResources [] of
                    LoopHung res1 tried \<Rightarrow>
                      \<lparr>out_router = r1, out_routed = True, out_res = res1, out_tried = tried,
                       out_handoff = None, out_404 = False, out_hung = True\<rparr>
                  | LoopThrew err res1 tried \<Rightarrow> route_catch r1 res1 tried err
                  | LoopDone res1 handled1 tried \<Rightarrow>
                      if \<not> handled1 \<and> \<not> writableEnded res1 \<and> \<not> headersSent res1
                      then \<lparr>out_router = r1, out_routed = True, out_res = handle404 res1,
                            out_tried = tried, out_handoff = None, out_404 = True,
                            out_hung = False\<rparr>
                      else \<lparr>out_router = r1, out_routed = True, out_res = res1,
                            out_tried = tried, out_handoff = None, out_404 = False,
                            out_hung = False\<rparr>)))"

text \<open>
  The candidates before the one looked at all defer: each is tried on a response that
  has not ended, calls \<open>next()\<close> and leaves \<open>handled\<close> false. The result is the
  response they leave.
\<close>

fun deferring ::
  "string \<Rightarrow> response \<Rightarrow> 'a handler_resource_scheme list \<Rightarrow> response option" where
  "deferring u res0 [] = Some res0"
| "deferring u res0 (x # xs) =
     (if writableEnded res0 then None
      else
        let c = run_candidate x u res0
        in if outcome c = Resolved \<and> nextRequested c \<and> \<not> handled c
           then deferring u (cand_res c) xs else None)"

text \<open>Examples: a response nothing has been written to, handlers that throw, two errors.\<close>

definition fresh_response :: response where
  "fresh_response =
     \<lparr>statusCode = 200, headersSent = False, finished = False, headers = [], written = [],
      live = True\<rparr>"

definition throwing_resource :: "thrown \<Rightarrow> string \<Rightarrow> handler_resource" where
  "throwing_resource err p =
     \<lparr>path = p,
      handle = \<lparr>first_calls = [], throws = Some err, returns_promise = False, later = []\<rparr>,
      external = [], handleSession = None\<rparr>"

definition plain_403 :: thrown where
  "plain_403 =
     AnObject \<lparr>message = ''nope'', error_statusCode = Some 403, error_status = None,
               serializable = True\<rparr>"

definition error_404 :: thrown where
  "error_404 =
     AnError \<lparr>message = ''gone'', error_statusCode = Some 404, error_status = None,
              serializable = True\<rparr>"

section \<open>The script sandbox (lib/script.js, in the sources as unnamed/part_003)\<close>

subsection \<open>Hooks and scripts\<close>

text \<open>
  The source of a hook is the list of the statements it executes, in order: the
  cancellation helpers, a call of a domain function with a callback (which may make the
  domain function throw at once), a \<open>throw\<close>, or any other statement.
\<close>

datatype statement =
    Cancel thrown "int option"
  | CancelIf bool thrown "int option"
  | CancelUnless bool thrown "int option"
  | CallDomain string "thrown option"
  | ThrowStmt thrown
  | Plain

text \<open>
  A \<open>Script\<close>: its source, whether \<open>new Function\<close> accepts it, \<open>this.error\<close>, and the
  cache behind \<open>getFunction = _.memoize(this._createFunction.bind(this))\<close>. lodash's
  \<open>memoize\<close> keeps a \<open>Map\<close> from the first argument to the result, and a \<open>Map\<close> compares
  keys that are objects by identity. The key here is an array, so the cache maps the
  identity of an array to the function compiled for its names. \<open>next_ref\<close> is the
  identity the next new object gets, \<open>compilations\<close> the number of calls of
  \<open>new Function\<close>.
\<close>

record script =
  scriptSourceCode :: "statement list"
  syntax_ok :: bool
  script_error :: "thrown option"
  memo :: "(nat \<times> string list) list"
  next_ref :: nat
  compilations :: nat

definition Script_new :: "statement list \<Rightarrow> bool \<Rightarrow> script" where
  "Script_new src ok =
     \<lparr>scriptSourceCode = src, syntax_ok = ok, script_error = None, memo = [], next_ref = 0,
      compilations = 0\<rparr>"

definition syntax_error :: thrown where
  "syntax_error =
     AnError \<lparr>message = ''SyntaxError'', error_statusCode = None, error_status = None,
              serializable = True\<rparr>"

definition reference_error :: "string \<Rightarrow> thrown" where
  "reference_error name =
     AnError \<lparr>message = name @ '' is not defined'', error_statusCode = None,
              error_status = None, serializable = True\<rparr>"

definition type_error :: "string \<Rightarrow> thrown" where
  "type_error what =
     AnError \<lparr>message = what @ '' is not a function'', error_statusCode = None,
              error_status = None, serializable = True\<rparr>"

text \<open>
  \<open>runWithContext\<close> up to the call of the compiled function:
  \<open>Object.keys(context).filter(...)\<close> makes a new array, \<open>getFunction\<close> looks its identity
  up and, when it is not a key of the cache, compiles and stores. The result is the
  compiled function (its parameter names) or the SyntaxError of \<open>new Function\<close>.
\<close>

definition getFunction :: "script \<Rightarrow> string list \<Rightarrow> (thrown + string list) \<times> script" where
  "getFunction s names =
     (let functionArgs = next_ref s;
          s1 = s\<lparr>next_ref := next_ref s + 1\<rparr>
      in case map_of (memo s1) functionArgs of
           Some func \<Rightarrow> (Inr func, s1)
         | None \<Rightarrow>
             (let s2 = s1\<lparr>compilations := compilations s1 + 1\<rparr>
              in if syntax_ok s2
                 then (Inr names, s2\<lparr>memo := memo s2 @ [(functionArgs, names)]\<rparr>)
                 else (Inl syntax_error, s2)))"

subsection \<open>The cancellation helpers\<close>

text \<open>
  The names an instance of \<open>Script\<close> answers to: its own fields and the methods of the
  class. \<open>done\<close> is not among them.
\<close>

definition Script_properties :: "string list" where
  "Script_properties =
     [''scriptSourceCode'', ''filePath'', ''getFunction'', ''error'', ''_createFunction'',
      ''runWithContext'', ''run'', ''_setupDomainHandlers'', ''_cancel'', ''_cancelIf'',
      ''_cancelUnless'', ''_isMe'', ''_emit'', ''_wrapError'', ''_isPromise'', ''_wrapPromise'',
      ''_wrapAsyncFunction'', ''_wrapAsyncFunctions'']"

text \<open>The error \<open>_cancel(msg, status)\<close> builds.\<close>

fun cancel_error :: "thrown \<Rightarrow> int option \<Rightarrow> thrown" where
  "cancel_error (AnError e) status = AnError e"
| "cancel_error (AnObject e) status =
     (if message e \<noteq> [] \<and> (num_or (error_status e) 0 \<noteq> 0 \<or> num_or (error_statusCode e) 0 \<noteq> 0)
      then AnObject \<lparr>message = message e,
                     error_statusCode =
                       Some (if num_or (error_status e) 0 \<noteq> 0 then num_or (error_status e) 0
                             else num_or (error_statusCode e) 0),
                     error_status = None, serializable = True\<rparr>
      else AnObject \<lparr>message = ''[object Object]'', error_statusCode = status,
                     error_status = None, serializable = serializable e\<rparr>)"
| "cancel_error (APrimitive v) status =
     AnObject \<lparr>message = to_key v, error_statusCode = status, error_status = None,
               serializable = True\<rparr>"

text \<open>
  What \<open>_cancel\<close> throws. It is bound to the script (\<open>this._cancel.bind(this)\<close>) and
  calls \<open>this.done(err)\<close> before \<open>throw err\<close>; a script without a \<open>done\<close> makes that
  call a TypeError.
\<close>

definition cancel_throws :: "thrown \<Rightarrow> int option \<Rightarrow> thrown" where
  "cancel_throws msg status =
     (if ''done'' \<in> set Script_properties then cancel_error msg status
      else type_error ''this.done'')"

subsection \<open>\<open>Script.run\<close>\<close>

text \<open>
  A JavaScript number that starts as a missing property: \<open>undefined++\<close> is NaN, and NaN
  stays NaN and is not \<open><= 0\<close>.
\<close>

datatype jsnumber = Missing | NaN | Number int

fun increment :: "jsnumber \<Rightarrow> jsnumber" where
  "increment (Number n) = Number (n + 1)"
| "increment v = NaN"

fun decrement :: "jsnumber \<Rightarrow> jsnumber" where
  "decrement (Number n) = Number (n - 1)"
| "decrement v = NaN"

fun at_most_zero :: "jsnumber \<Rightarrow> bool" where
  "at_most_zero (Number n) = (n \<le> 0)"
| "at_most_zero v = False"

text \<open>
  How the domain reached the sandbox: there is none; its functions were wrapped
  (\<open>_wrapAsyncFunctions\<close>); or it was copied as it is (\<open>Object.assign\<close>).
\<close>

datatype domain_mode = NoDomain | Wrapped | Raw

text \<open>
  One run. \<open>onDone\<close> lists the calls of the callback \<open>fn\<close>, each with its argument.
  \<open>waitingForCallback\<close> and \<open>callbackCount\<close> are the local variables of \<open>run\<close>;
  \<open>ctx_waitingForCallback\<close> and \<open>ctx_callbackCount\<close> are the properties of
  \<open>scriptContext\<close> the event handlers write. \<open>finalError\<close> is the constant of that name,
  \<open>tick_scheduled\<close> whether \<open>process.nextTick\<close> was reached, \<open>run_rejected\<close> the
  exception that left \<open>run\<close> (the promise it returns is rejected with it). The last three
  fields count: statements of the hook executed, operations handed to domain functions,
  and those of them that have called back.
\<close>

record run_state =
  onDone :: "thrown option list"
  isDone :: bool
  waitingForCallback :: bool
  callbackCount :: int
  ctx_waitingForCallback :: bool
  ctx_callbackCount :: jsnumber
  ctx_error :: "thrown option"
  finalError :: "thrown option"
  tick_scheduled :: bool
  run_rejected :: "thrown option"
  mode :: domain_mode
  domain_names :: "string list"
  executed :: nat
  dispatched :: nat
  called_back :: nat

definition initial_run :: run_state where
  "initial_run =
     \<lparr>onDone = [], isDone = False, waitingForCallback = False, callbackCount = 0,
      ctx_waitingForCallback = False, ctx_callbackCount = Missing, ctx_error = None,
      finalError = None, tick_scheduled = False, run_rejected = None, mode = NoDomain,
      domain_names = [], executed = 0, dispatched = 0, called_back = 0\<rparr>"

definition doneCallback :: "run_state \<Rightarrow> thrown option \<Rightarrow> run_state" where
  "doneCallback st err =
     (if isDone st then st else st\<lparr>isDone := True, onDone := onDone st @ [err]\<rparr>)"

text \<open>
  The handlers \<open>_setupDomainHandlers\<close> registers for \<open>addCallback\<close> and
  \<open>finishCallback\<close>; \<open>doneCallback\<close> removes the second one.
\<close>

definition addCallback :: "run_state \<Rightarrow> run_state" where
  "addCallback st =
     st\<lparr>ctx_waitingForCallback := True, ctx_callbackCount := increment (ctx_callbackCount st)\<rparr>"

definition finishCallback :: "run_state \<Rightarrow> run_state" where
  "finishCallback st =
     (if isDone st then st
      else
        let st1 = st\<lparr>ctx_callbackCount := decrement (ctx_callbackCount st)\<rparr>
        in if at_most_zero (ctx_callbackCount st1) then doneCallback st1 (ctx_error st1)
           else st1)"

text \<open>
  \<open>_setupDomainHandlers\<close>. After the handlers and \<open>domain.dpd\<close> it reads \<open>fn\<close>, which is
  no parameter or variable of the method, nor of the module: \<open>global_fn\<close> is the truth
  value of a global of that name, if the environment has one. Without one the read
  throws a ReferenceError. With one, the keys of the domain, to which the method has
  added \<open>$addCallback\<close>, \<open>$finishCallback\<close> and \<open>dpd\<close>, become names of the sandbox.
  Domain functions that return promises (\<open>_wrapPromise\<close>) are not modelled.
\<close>

definition setupDomainHandlers ::
  "run_state \<Rightarrow> bool option \<Rightarrow> string list \<Rightarrow> thrown + run_state" where
  "setupDomainHandlers st global_fn names =
     (case global_fn of
        None \<Rightarrow> Inl (reference_error ''fn'')
      | Some b \<Rightarrow>
          Inr (st\<lparr>mode := (if b then Wrapped else Raw),
                  domain_names := names @ [''$addCallback'', ''$finishCallback'', ''dpd'']\<rparr>))"

text \<open>
  One statement of the hook: the state after it and what it throws, if it throws. A
  wrapped domain function returns at once when \<open>_error\<close> is set; otherwise it emits
  \<open>addCallback\<close> and calls the domain function, and when that throws it sets \<open>_error\<close>
  and calls \<open>done\<close>. A name that is no parameter of the compiled function is a
  ReferenceError.
\<close>

fun exec_statement :: "run_state \<Rightarrow> statement \<Rightarrow> run_state \<times> thrown option" where
  "exec_statement st (Cancel msg status) = (st, Some (cancel_throws msg status))"
| "exec_statement st (CancelIf condition msg status) =
     (st, if condition then Some (cancel_throws msg status) else None)"
| "exec_statement st (CancelUnless condition msg status) =
     (st, if \<not> condition then Some (cancel_throws msg status) else None)"
| "exec_statement st (ThrowStmt err) = (st, Some err)"
| "exec_statement st Plain = (st, None)"
| "exec_statement st (CallDomain name fails) =
     (if mode st = NoDomain \<or> name \<notin> set (domain_names st)
      then (st, Some (reference_error name))
      else if mode st = Raw then
        (case fails of
           None \<Rightarrow> (st\<lparr>dispatched := dispatched st + 1\<rparr>, None)
         | Some err \<Rightarrow> (st, Some err))
      else if ctx_error st \<noteq> None then (st, None)
      else
        let st1 = addCallback st
        in case fails of
             None \<Rightarrow> (st1\<lparr>dispatched := dispatched st1 + 1\<rparr>, None)
           | Some err \<Rightarrow> (doneCallback (st1\<lparr>ctx_error := Some err\<rparr>) (Some err), None))"

fun exec_hook :: "run_state \<Rightarrow> statement list \<Rightarrow> run_state \<times> thrown option" where
  "exec_hook st [] = (st, None)"
| "exec_hook st (x # xs) =
     (case exec_statement (st\<lparr>executed := executed st + 1\<rparr>) x of
        (st1, Some err) \<Rightarrow> (st1, Some err)
      | (st1, None) \<Rightarrow> exec_hook st1 xs)"

text \<open>The names of \<open>scriptContext\<close> that become parameters (all its keys but \<open>this\<close>).\<close>

definition context_names :: "string list" where
  "context_names =
     [''cancel'', ''cancelIf'', ''cancelUnless'', ''me'', ''isMe'', ''console'', ''require'',
      ''query'', ''internal'', ''isRoot'', ''emit'', ''session'', ''ctx'', ''_this'', ''_error'']"

text \<open>
  The synchronous part of the call with three arguments, \<open>run(ctx, domain, fn)\<close>: the
  state of the run and the script with its cache. \<open>domain\<close> is the list of the names of
  the domain's functions, or \<open>None\<close> for a domain that is \<open>undefined\<close>.
\<close>

definition run :: "script \<Rightarrow> bool option \<Rightarrow> string list option \<Rightarrow> run_state \<times> script" where
  "run s global_fn domain =
     (case script_error s of
        Some err \<Rightarrow> (doneCallback initial_run (Some err), s)
      | None \<Rightarrow>
          (case (case domain of
                   None \<Rightarrow> Inr initial_run
                 | Some names \<Rightarrow> setupDomainHandlers initial_run global_fn names) of
             Inl err \<Rightarrow> (initial_run\<lparr>run_rejected := Some err\<rparr>, s)
           | Inr st \<Rightarrow>
               (case getFunction s
                       (context_names @ (if mode st = NoDomain then [] else domain_names st)) of
                  (Inl err, s1) \<Rightarrow>
                    (st\<lparr>ctx_error := Some err, finalError := Some err, tick_scheduled := True\<rparr>,
                     s1)
                | (Inr func, s1) \<Rightarrow>
                    (case exec_hook st (scriptSourceCode s1) of
                       (st1, thrown0) \<Rightarrow>
                         (let st2 = (case thrown0 of
                                       None \<Rightarrow> st1
                                     | Some err \<Rightarrow> st1\<lparr>ctx_error := Some err\<rparr>)
                          in (st2\<lparr>finalError := ctx_error st2, tick_scheduled := True\<rparr>,
                              s1))))))"

text \<open>
  The call with two arguments, \<open>run(ctx, fn)\<close>. The test of \<open>this.error\<close> comes before
  the arguments are shifted: with \<open>this.error\<close> set, \<open>fn(this.error)\<close> calls the third
  parameter, which is undefined, and the TypeError leaves \<open>run\<close> without the callback
  being called. Otherwise the call goes on as one without a domain.
\<close>

definition run_without_domain :: "script \<Rightarrow> bool option \<Rightarrow> run_state \<times> script" where
  "run_without_domain s global_fn =
     (case script_error s of
        Some err \<Rightarrow> (initial_run\<lparr>run_rejected := Some (type_error ''fn'')\<rparr>, s)
      | None \<Rightarrow> run s global_fn None)"

text \<open>
  What happens after the synchronous part: the callback given to \<open>process.nextTick\<close>
  runs; an operation calls the callback the hook gave it, and that callback returns or
  throws.
\<close>

datatype script_event = Tick | CallbackReturns | CallbackThrows thrown

fun run_event :: "run_state \<Rightarrow> script_event \<Rightarrow> run_state" where
  "run_event st Tick =
     (if tick_scheduled st \<and> \<not> waitingForCallback st \<and> callbackCount st \<le> 0
      then doneCallback st (finalError st) else st)"
| "run_event st CallbackReturns =
     (let st1 = st\<lparr>called_back := called_back st + 1\<rparr>
      in if mode st1 = Wrapped \<and> ctx_error st1 = None then finishCallback st1 else st1)"
| "run_event st (CallbackThrows err) =
     (let st1 = st\<lparr>called_back := called_back st + 1\<rparr>
      in if mode st1 = Wrapped \<and> ctx_error st1 = None
         then doneCallback (st1\<lparr>ctx_error := Some err\<rparr>) (Some err) else st1)"

definition run_events :: "run_state \<Rightarrow> script_event list \<Rightarrow> run_state" where
  "run_events st evs = foldl run_event st evs"

text \<open>
  \<open>n\<close> runs of one script, each without a domain (so each with the same names), and
  what the cache holds between runs: identities handed out before. On a script without
  \<open>this.error\<close> the calls \<open>run(ctx, fn)\<close> and \<open>run(ctx, undefined, fn)\<close> do the same.
\<close>

fun runs :: "script \<Rightarrow> nat \<Rightarrow> script" where
  "runs s 0 = s"
| "runs s (Suc n) = runs (snd (run s None None)) n"

definition memo_fresh :: "script \<Rightarrow> bool" where
  "memo_fresh s = list_all (\<lambda>e. fst e < next_ref s) (memo s)"

section \<open>Properties of the router\<close>

subsection \<open>The caches do not change what a call returns\<close>

lemma generateRegex_afresh:
  assumes "regex_cache_ok r"
  shows "fst (generateRegex r p) = compile_path p
    \<and> regex_cache_ok (snd (generateRegex r p))
    \<and> routeCache (snd (generateRegex r p)) = routeCache r
    \<and> resources (snd (generateRegex r p)) = resources r
    \<and> lastResourceUpdate (snd (generateRegex r p)) = lastResourceUpdate r"
proof (cases "map_of (pathRegexCache r) (regex_key p)")
  case None
  then show ?thesis
    using assms
    by (cases "parse_atoms (escapePath (regex_key p))")
      (simp_all add: generateRegex_def compile_path_def regex_cache_ok_def)
next
  case (Some cached)
  then have "(regex_key p, cached) \<in> set (pathRegexCache r)"
    by (rule map_of_SomeD)
  with assms have "parse_atoms (escapePath (regex_key p)) = Inr cached"
    by (auto simp: regex_cache_ok_def list_all_iff)
  with Some show ?thesis
    using assms by (simp add: generateRegex_def compile_path_def)
qed

lemma filter_matching_afresh:
  assumes "regex_cache_ok r"
  shows "fst (filter_matching r xs u) = filter_afresh xs u
    \<and> regex_cache_ok (snd (filter_matching r xs u))
    \<and> routeCache (snd (filter_matching r xs u)) = routeCache r
    \<and> resources (snd (filter_matching r xs u)) = resources r
    \<and> lastResourceUpdate (snd (filter_matching r xs u)) = lastResourceUpdate r"
  using assms
proof (induction xs arbitrary: r)
  case Nil
  then show ?case by simp
next
  case (Cons x xs)
  obtain res r' where g: "generateRegex r (path x) = (res, r')" by (cases "generateRegex r (path x)")
  from generateRegex_afresh [OF Cons.prems, of "path x"] g
  have r': "res = compile_path (path x)" "regex_cache_ok r'" "routeCache r' = routeCache r"
    "resources r' = resources r" "lastResourceUpdate r' = lastResourceUpdate r" by simp_all
  obtain res2 r'' where f: "filter_matching r' xs u = (res2, r'')" by (cases "filter_matching r' xs u")
  from Cons.IH [OF r'(2)] f
  have r'': "res2 = filter_afresh xs u" "regex_cache_ok r''" "routeCache r'' = routeCache r'"
    "resources r'' = resources r'" "lastResourceUpdate r'' = lastResourceUpdate r'" by simp_all
  show ?case
    using g f r' r'' by (auto split: sum.splits)
qed

lemma matchResources_afresh:
  assumes rc: "route_cache_ok rs r" and gc: "regex_cache_ok r"
  shows "fst (matchResources r u) = candidates_afresh rs u
    \<and> route_cache_ok rs (snd (matchResources r u))
    \<and> regex_cache_ok (snd (matchResources r u))"
proof (cases "rs = []")
  case True
  with rc gc show ?thesis
    by (simp add: matchResources_def route_cache_ok_def candidates_afresh_def
        sort_by_specificness_def)
next
  case False
  define r1 where "r1 = (if lastResourceUpdate r \<noteq> length (resources r)
                  then r\<lparr>routeCache := [], lastResourceUpdate := length (resources r)\<rparr>
                  else r)"
  have rc1: "route_cache_ok rs r1" and gc1: "regex_cache_ok r1"
    and upd: "lastResourceUpdate r1 = length rs"
    using rc gc False by (auto simp: r1_def route_cache_ok_def regex_cache_ok_def)
  have res1: "resources r1 = rs" using rc1 by (simp add: route_cache_ok_def)
  have eq: "matchResources r u =
     (case map_of (routeCache r1) u of
        Some cached \<Rightarrow> (Inr cached, r1)
      | None \<Rightarrow>
          (case filter_matching r1 (resources r1) u of
             (Inl err, r2) \<Rightarrow> (Inl err, r2)
           | (Inr matched, r2) \<Rightarrow>
               (Inr (sort_by_specificness matched),
                if length (routeCache r2) < 1000
                then r2\<lparr>routeCache := routeCache r2 @ [(u, sort_by_specificness matched)]\<rparr>
                else r2)))"
    unfolding matchResources_def r1_def Let_def
    using False rc by (simp add: route_cache_ok_def)
  show ?thesis
  proof (cases "map_of (routeCache r1) u")
    case (Some cached)
    then have "(u, cached) \<in> set (routeCache r1)" by (rule map_of_SomeD)
    with rc1 have "candidates_afresh rs u = Inr cached"
      by (auto simp: route_cache_ok_def list_all_iff)
    with Some rc1 gc1 show ?thesis
      by (simp add: eq)
  next
    case None
    obtain res r2 where f: "filter_matching r1 rs u = (res, r2)"
      by (cases "filter_matching r1 rs u")
    from filter_matching_afresh [OF gc1, of rs u] f
    have r2: "res = filter_afresh rs u" "regex_cache_ok r2" "routeCache r2 = routeCache r1"
      "resources r2 = resources r1" "lastResourceUpdate r2 = lastResourceUpdate r1"
      by simp_all
    have rc2: "route_cache_ok rs r2"
      using rc1 r2 by (simp add: route_cache_ok_def)
    show ?thesis
    proof (cases res)
      case (Inl err)
      with r2 have fa: "filter_afresh rs u = Inl err" by simp
      from f fa r2 have f': "filter_matching r1 rs u = (Inl err, r2)" by simp
      from None f' fa r2(2) rc2 res1 show ?thesis
        by (simp add: eq candidates_afresh_def)
    next
      case (Inr matched)
      with r2 have fa: "filter_afresh rs u = Inr matched" by simp
      from f fa r2 have f': "filter_matching r1 rs u = (Inr matched, r2)" by simp
      from None f' fa r2(2-) rc2 res1 upd False show ?thesis
        by (simp add: eq candidates_afresh_def route_cache_ok_def regex_cache_ok_def)
    qed
  qed
qed

lemma Router_new_ok: "route_cache_ok rs (Router_new rs) \<and> regex_cache_ok (Router_new rs)"
  by (simp add: Router_new_def route_cache_ok_def regex_cache_ok_def)

lemma match_all_ok:
  "route_cache_ok rs r \<Longrightarrow> regex_cache_ok r \<Longrightarrow>
     route_cache_ok rs (match_all r us) \<and> regex_cache_ok (match_all r us)"
proof (induction us arbitrary: r)
  case Nil
  then show ?case by simp
next
  case (Cons u us)
  from matchResources_afresh [OF Cons.prems, of u]
  have "route_cache_ok rs (snd (matchResources r u))" "regex_cache_ok (snd (matchResources r u))"
    by simp_all
  then show ?case using Cons.IH by simp
qed

lemma star_free_escape: "CHR ''*'' \<notin> set k \<Longrightarrow> CHR ''*'' \<notin> set (escapePath k)"
  by (induction k) auto

lemma escapePath_Nil: "escapePath k = [] \<longleftrightarrow> k = []"
  by (cases k) auto

lemma backslash_in_class: "CHR 0x5C \<in> set escape_class"
  by (simp add: escape_class_def)

lemma star_notin_class: "CHR ''*'' \<notin> set escape_class"
  by (simp add: escape_class_def)

lemma parse_star_free: "CHR ''*'' \<notin> set k \<Longrightarrow> parse_atoms (escapePath k) = Inr (map Lit k)"
proof (induction k)
  case Nil
  then show ?case by simp
next
  case (Cons c cs)
  then have IH: "parse_atoms (escapePath cs) = Inr (map Lit cs)" and c: "c \<noteq> CHR ''*''"
    by auto
  from Cons.prems have cs: "CHR ''*'' \<notin> set (escapePath cs)"
    using star_free_escape [of cs] by simp
  show ?case
  proof (cases "escapePath cs")
    case Nil
    then have "cs = []" by (simp add: escapePath_Nil)
    with c show ?thesis using backslash_in_class by auto
  next
    case (Cons d ds)
    with cs have d: "d \<noteq> CHR ''*''" by auto
    from IH Cons have "parse_atoms (d # ds) = Inr (map Lit cs)" by simp
    with c d Cons show ?thesis
      using backslash_in_class by (auto simp: cons_atom_def)
  qed
qed

lemma regex_test_literal: "regex_test (map Lit k) u = base_matches k u"
proof (induction k arbitrary: u)
  case Nil
  then show ?case by (simp add: base_matches_def)
next
  case (Cons c cs)
  then show ?case by (cases u) (auto simp: base_matches_def)
qed

lemma filter_afresh_star_free:
  "\<forall>x\<in>set xs. CHR ''*'' \<notin> set (path x) \<Longrightarrow>
     filter_afresh xs u = Inr (filter (\<lambda>x. base_matches (regex_key (path x)) u) xs)"
proof (induction xs)
  case Nil
  then show ?case by simp
next
  case (Cons x xs)
  then have "CHR ''*'' \<notin> set (regex_key (path x))" by (simp add: regex_key_def)
  then have "compile_path (path x) = Inr (map Lit (regex_key (path x)))"
    by (simp add: compile_path_def parse_star_free)
  with Cons show ?case by (simp add: regex_test_literal)
qed

text \<open>
  The parser's answer for what it does not support is never reached from an escaped
  path; and \<open>specificness\<close> is one more than the number of slashes of the path, 0 for
  the empty and the root path.
\<close>

lemma split_on_not_Nil: "split_on d s \<noteq> []"
  by (induction s) (auto split: list.splits)

lemma length_split_on: "length (split_on d s) = Suc (count_list s d)"
  using split_on_not_Nil [of d]
  by (induction s) (auto split: list.splits)

lemma specificness_slashes:
  "specificness x =
     (if path x = [] \<or> path x = ''/'' then 0 else Suc (count_list (path x) CHR ''/''))"
  by (simp add: specificness_def length_split_on)

lemma parse_escape_supported: "parse_atoms (escapePath k) \<noteq> Inl Unsupported"
proof (induction k rule: length_induct)
  case (1 k)
  have cons: "cons_atom a (parse_atoms (escapePath j)) \<noteq> Inl Unsupported"
    if "length j < length k" for a j
    using 1 that by (auto simp: cons_atom_def split: sum.splits)
  have tail: "(case escapePath cs of
                 [] \<Rightarrow> Inr [Lit e]
               | d # ds \<Rightarrow> if d = CHR ''*'' then cons_atom (Star e) (parse_atoms ds)
                           else cons_atom (Lit e) (parse_atoms (d # ds))) \<noteq> Inl Unsupported"
    if "length cs < length k" for cs e
  proof (cases cs)
    case Nil
    then show ?thesis by simp
  next
    case (Cons d' ds')
    show ?thesis
    proof (cases "d' = CHR ''*''")
      case True
      have "length ds' < length k" using that Cons by simp
      from cons [OF this, of "Star e"] True Cons show ?thesis
        by (simp add: escape_class_def)
    next
      case False
      then have hd: "hd (escapePath cs) \<noteq> CHR ''*''" "escapePath cs \<noteq> []"
        using Cons by auto
      then obtain d ds where e: "escapePath cs = d # ds" "d \<noteq> CHR ''*''"
        by (cases "escapePath cs") auto
      from cons [OF that, of "Lit e"] e show ?thesis by simp
    qed
  qed
  show ?case
  proof (cases k)
    case Nil
    then show ?thesis by simp
  next
    case (Cons c cs)
    then have l: "length cs < length k" by simp
    show ?thesis
    proof (cases "c \<in> set escape_class")
      case True
      then have "c \<noteq> CHR ''*''" by (auto simp: escape_class_def)
      with True tail [OF l, of c] Cons show ?thesis by simp
    next
      case False
      then have nb: "c \<noteq> CHR 0x5C" by (auto simp: escape_class_def)
      show ?thesis
      proof (cases "c = CHR ''*''")
        case True
        with Cons show ?thesis by (simp add: escape_class_def)
      next
        case star: False
        with False nb tail [OF l, of c] Cons show ?thesis by simp
      qed
    qed
  qed
qed

lemma sorted_by_specificness:
  "sorted_wrt (\<lambda>x y. specificness y \<le> specificness x) (sort_by_specificness xs)"
proof -
  have "sorted (map (\<lambda>x. - int (specificness x)) (sort_key (\<lambda>x. - int (specificness x)) xs))"
    by (rule sorted_sort_key)
  then show ?thesis
    by (simp add: sort_by_specificness_def sorted_map)
qed

lemma stable_by_specificness:
  "filter (\<lambda>x. specificness x = k) (sort_by_specificness xs) =
     filter (\<lambda>x. specificness x = k) xs"
proof -
  have "filter (\<lambda>y. - int (specificness y) = - int k) (sort_key (\<lambda>x. - int (specificness x)) xs)
      = filter (\<lambda>y. - int (specificness y) = - int k) xs"
    by (rule sort_key_stable)
  then show ?thesis by (simp add: sort_by_specificness_def)
qed

text \<open>
  C10. On a router whose resources stay \<open>rs\<close>, after any sequence \<open>us\<close> of earlier
  calls, a call for \<open>u\<close> returns what filtering and sorting afresh gives (the same list,
  or the same SyntaxError); whenever the URL cache holds an entry for \<open>u\<close>, that entry is
  the list returned and equals the list computed afresh; and the URL cache holds at most
  1000 entries before and after the call. The arrays are values here: a caller that
  changed the array it was handed would change the cached one too, and the only caller,
  \<open>route\<close>, does not.
\<close>

theorem matchResources_cache_coherent:
  "fst (matchResources (match_all (Router_new rs) us) u) = candidates_afresh rs u
   \<and> (\<forall>ys. map_of (routeCache (match_all (Router_new rs) us)) u = Some ys \<longrightarrow>
          fst (matchResources (match_all (Router_new rs) us) u) = Inr ys
          \<and> candidates_afresh rs u = Inr ys)
   \<and> length (routeCache (match_all (Router_new rs) us)) \<le> 1000
   \<and> length (routeCache (snd (matchResources (match_all (Router_new rs) us) u))) \<le> 1000"
proof -
  define r where "r = match_all (Router_new rs) us"
  have ok: "route_cache_ok rs r" "regex_cache_ok r"
    using match_all_ok [of rs "Router_new rs" us] Router_new_ok [of rs] by (simp_all add: r_def)
  note step = matchResources_afresh [OF ok, of u]
  have cached: "candidates_afresh rs u = Inr ys" if "map_of (routeCache r) u = Some ys" for ys
  proof -
    from that have "(u, ys) \<in> set (routeCache r)" by (rule map_of_SomeD)
    with ok(1) show ?thesis by (auto simp: route_cache_ok_def list_all_iff)
  qed
  from step ok(1) cached show ?thesis
    unfolding r_def [symmetric] by (simp add: route_cache_ok_def)
qed

theorem matchResources_cache_coherent_witness:
  "map_of (routeCache (match_all (Router_new [\<lparr>path = ''/a''\<rparr>, \<lparr>path = ''/a/b''\<rparr>])
       [''/a/b/c''])) ''/a/b/c'' = Some [\<lparr>path = ''/a/b''\<rparr>, \<lparr>path = ''/a''\<rparr>]
   \<and> fst (matchResources (match_all (Router_new [\<lparr>path = ''/a''\<rparr>, \<lparr>path = ''/a/b''\<rparr>])
       [''/a/b/c'']) ''/a/b/c'') = Inr [\<lparr>path = ''/a/b''\<rparr>, \<lparr>path = ''/a''\<rparr>]
   \<and> candidates_afresh [\<lparr>path = ''/a''\<rparr>, \<lparr>path = ''/a/b''\<rparr>] ''/a/b/c''
       = Inr [\<lparr>path = ''/a/b''\<rparr>, \<lparr>path = ''/a''\<rparr>]"
proof -
  have h: "map_of (routeCache (match_all (Router_new [\<lparr>path = ''/a''\<rparr>, \<lparr>path = ''/a/b''\<rparr>])
       [''/a/b/c''])) ''/a/b/c'' = Some [\<lparr>path = ''/a/b''\<rparr>, \<lparr>path = ''/a''\<rparr>]"
    by code_simp
  from matchResources_cache_coherent
    [of "[\<lparr>path = ''/a''\<rparr>, \<lparr>path = ''/a/b''\<rparr>]" "[''/a/b/c'']" "''/a/b/c''"] h
  show ?thesis by blast
qed

text \<open>
  C7, as amended. When no resource path contains the character \<open>*\<close>, the list returned
  for a URL, after any earlier calls on the router, holds exactly the resources whose base
  (the path, or the empty string for the root path) the URL equals or continues with
  \<open>/\<close> or \<open>?\<close>; it is ordered by \<open>specificness\<close> (the number of pieces of
  \<open>path.split('/')\<close>) descending; and the resources of equal specificness keep their
  registration order.
\<close>

theorem matchResources_candidates:
  assumes "\<forall>x\<in>set rs. CHR ''*'' \<notin> set (path x)"
  shows "\<exists>ys. fst (matchResources (match_all (Router_new rs) us) u) = Inr ys
     \<and> set ys = {x \<in> set rs. base_matches (regex_key (path x)) u}
     \<and> sorted_wrt (\<lambda>x y. specificness y \<le> specificness x) ys
     \<and> (\<forall>k. filter (\<lambda>x. specificness x = k) ys =
              filter (\<lambda>x. specificness x = k)
                (filter (\<lambda>x. base_matches (regex_key (path x)) u) rs))"
proof -
  define matched where "matched = filter (\<lambda>x. base_matches (regex_key (path x)) u) rs"
  have ok: "route_cache_ok rs (match_all (Router_new rs) us)"
    "regex_cache_ok (match_all (Router_new rs) us)"
    using match_all_ok [of rs "Router_new rs" us] Router_new_ok [of rs] by simp_all
  have "fst (matchResources (match_all (Router_new rs) us) u) = candidates_afresh rs u"
    using matchResources_afresh [OF ok, of u] by simp
  also have "\<dots> = Inr (sort_by_specificness matched)"
    using filter_afresh_star_free [OF assms, of u]
    by (simp add: candidates_afresh_def matched_def)
  finally have res: "fst (matchResources (match_all (Router_new rs) us) u)
      = Inr (sort_by_specificness matched)" .
  have "set (sort_by_specificness matched) = {x \<in> set rs. base_matches (regex_key (path x)) u}"
    by (simp add: sort_by_specificness_def matched_def)
  moreover have "sorted_wrt (\<lambda>x y. specificness y \<le> specificness x) (sort_by_specificness matched)"
    by (rule sorted_by_specificness)
  moreover have "\<forall>k. filter (\<lambda>x. specificness x = k) (sort_by_specificness matched) =
      filter (\<lambda>x. specificness x = k) matched"
    by (simp add: stable_by_specificness)
  ultimately show ?thesis
    using res unfolding matched_def by blast
qed

text \<open>
  The example of the claim: with resources at \<open>/a\<close> and \<open>/a/b\<close>, a request to
  \<open>/a/b/c\<close> gets \<open>/a/b\<close> before \<open>/a\<close>.
\<close>

theorem matchResources_candidates_witness:
  "list_all (\<lambda>x. CHR ''*'' \<notin> set (path x)) [\<lparr>path = ''/a''\<rparr>, \<lparr>path = ''/a/b''\<rparr>]
   \<and> (\<exists>ys. fst (matchResources (match_all (Router_new [\<lparr>path = ''/a''\<rparr>, \<lparr>path = ''/a/b''\<rparr>]) [])
          ''/a/b/c'') = Inr ys
     \<and> set ys = {x \<in> set [\<lparr>path = ''/a''\<rparr>, \<lparr>path = ''/a/b''\<rparr>].
           base_matches (regex_key (path x)) ''/a/b/c''}
     \<and> sorted_wrt (\<lambda>x y. specificness y \<le> specificness x) ys
     \<and> (\<forall>k. filter (\<lambda>x. specificness x = k) ys =
              filter (\<lambda>x. specificness x = k)
                (filter (\<lambda>x. base_matches (regex_key (path x)) ''/a/b/c'')
                   [\<lparr>path = ''/a''\<rparr>, \<lparr>path = ''/a/b''\<rparr>])))
   \<and> fst (matchResources (Router_new [\<lparr>path = ''/a''\<rparr>, \<lparr>path = ''/a/b''\<rparr>]) ''/a/b/c'')
       = Inr [\<lparr>path = ''/a/b''\<rparr>, \<lparr>path = ''/a''\<rparr>]"
proof -
  have h: "\<forall>x\<in>set [\<lparr>path = ''/a''\<rparr>, \<lparr>path = ''/a/b''\<rparr>]. CHR ''*'' \<notin> set (path x)"
    by simp
  have e: "fst (matchResources (Router_new [\<lparr>path = ''/a''\<rparr>, \<lparr>path = ''/a/b''\<rparr>]) ''/a/b/c'')
       = Inr [\<lparr>path = ''/a/b''\<rparr>, \<lparr>path = ''/a''\<rparr>]"
    by code_simp
  have l: "list_all (\<lambda>x. CHR ''*'' \<notin> set (path x)) [\<lparr>path = ''/a''\<rparr>, \<lparr>path = ''/a/b''\<rparr>]"
    by simp
  from matchResources_candidates [OF h, of "[]" "''/a/b/c''"] l e
  show ?thesis by blast
qed

text \<open>
  The claim as written fails in two ways. A path with \<open>*\<close>: the resource \<open>/a*\<close> is a
  candidate for the URL \<open>/aa\<close>, which neither equals its base nor continues it. And
  the order is that of \<open>specificness\<close>, not of the number of non-empty segments: \<open>/a\<close>
  and \<open>/a/\<close> have one non-empty segment each, yet \<open>/a/\<close>, registered second, comes
  first for the URL \<open>/a/\<close>.
\<close>

theorem matchResources_star_counterexample:
  "fst (matchResources (Router_new [\<lparr>path = ''/a*''\<rparr>]) ''/aa'') = Inr [\<lparr>path = ''/a*''\<rparr>]
   \<and> \<not> base_matches (regex_key ''/a*'') ''/aa''
   \<and> fst (matchResources (Router_new [\<lparr>path = ''/a''\<rparr>, \<lparr>path = ''/a/''\<rparr>]) ''/a/'')
       = Inr [\<lparr>path = ''/a/''\<rparr>, \<lparr>path = ''/a''\<rparr>]
   \<and> spec_specificity ''/a'' = spec_specificity ''/a/''"
  by code_simp

section \<open>Properties of the sessions\<close>

subsection \<open>Saving a session without a string id\<close>

text \<open>
  C9. On a session that is not anonymous and whose id is not a string, \<open>save\<close> calls its
  callback with the error \<open>'Invalid session ID'\<close> and leaves the whole state as it was:
  no operation is issued to the store and no index changes.
\<close>

theorem save_invalid_session_id:
  assumes "\<not> anonymous (data (heap w ! a))"
    and "\<not> typeof_string (id' (data (heap w ! a)))"
  shows "snd (save w a fresh) = SaveError ''Invalid session ID''
    \<and> fst (save w a fresh) = w
    \<and> ops (fst (save w a fresh)) = ops w
    \<and> sessionIndex (fst (save w a fresh)) = sessionIndex w
    \<and> userSessionIndex (fst (save w a fresh)) = userSessionIndex w"
  using assms by (simp add: save_def Let_def)

theorem save_invalid_session_id_witness:
  "snd (save example_world_numeric_id 0 ''f'') = SaveError ''Invalid session ID''
    \<and> fst (save example_world_numeric_id 0 ''f'') = example_world_numeric_id
    \<and> ops (fst (save example_world_numeric_id 0 ''f'')) = ops example_world_numeric_id
    \<and> sessionIndex (fst (save example_world_numeric_id 0 ''f''))
        = sessionIndex example_world_numeric_id
    \<and> userSessionIndex (fst (save example_world_numeric_id 0 ''f''))
        = userSessionIndex example_world_numeric_id"
proof -
  have a: "\<not> anonymous (data (heap example_world_numeric_id ! 0))"
    by (simp add: example_world_numeric_id_def example_world_def)
  have b: "\<not> typeof_string (id' (data (heap example_world_numeric_id ! 0)))"
    by (simp add: example_world_numeric_id_def example_world_def)
  from save_invalid_session_id [OF a b, of "''f''"] show ?thesis .
qed

subsection \<open>Touching a cached session\<close>




lemma writes_append: "writes (w\<lparr>ops := ops w0 @ [x]\<rparr>) = writes (w\<lparr>ops := ops w0\<rparr>) + (if is_write x then 1 else 0)"
  by (simp add: writes_def)








subsection \<open>The sweep\<close>

lemma touch_and_save_frame:
  "lastRun (fst (touch_and_save w a now fresh ig)) = lastRun w
   \<and> sessionIndex (fst (touch_and_save w a now fresh ig)) = sessionIndex w"
  by (simp add: touch_and_save_def save_def set_data_def Let_def split: prod.splits save_outcome.splits)

lemma createSession_frame:
  "lastRun (fst (createSession w sid0 now fresh)) = lastRun w
   \<and> sessionIndex (fst (createSession w sid0 now fresh)) = sessionIndex w
   \<and> (lastRun w = None \<longrightarrow> \<not> snd (snd (createSession w sid0 now fresh)))"
  by (simp add: createSession_def Let_def alloc_def touch_and_save_frame case_prod_beta
      split: option.splits)

lemma index_user_frame:
  "lastRun (index_user w u k a) = lastRun w \<and> sessionIndex (index_user w u k a) = sessionIndex w"
  by (simp add: index_user_def split: option.splits)

lemma createSession_found_frame:
  "lastRun (fst (createSession_found w s reply now fresh)) = lastRun w
   \<and> indexed w \<subseteq> indexed (fst (createSession_found w s reply now fresh))"
  by (cases reply)
    (auto simp: createSession_found_def Let_def alloc_def touch_and_save_frame index_user_frame
      indexed_def split: option.splits)

lemma set_own_keys_order: "set (own_keys_order al) = set al"
  by (auto simp: own_keys_order_def)

lemma createSession_saved_frame:
  "lastRun (fst (createSession_saved w a p ig reply)) = lastRun w
   \<and> indexed w \<subseteq> indexed (fst (createSession_saved w a p ig reply))"
  by (cases p; cases reply)
    (auto simp: createSession_saved_def save_done_def Let_def set_data_def index_user_frame
      indexed_def update_keys split: option.splits prod.splits)

lemma run_step_unswept:
  assumes "lastRun w = None"
  shows "lastRun (fst (run_step w e)) = None \<and> \<not> snd (run_step w e)
    \<and> indexed w \<subseteq> indexed (fst (run_step w e))"
proof (cases e)
  case (Resolve sid0 now fresh)
  with assms createSession_frame [of w sid0 now fresh] show ?thesis
    by (auto simp: run_step_def indexed_def split: prod.splits)
next
  case (Found s reply now fresh)
  with assms createSession_found_frame [of w s reply now fresh] show ?thesis
    by (simp add: run_step_def)
next
  case (Saved a p ig reply)
  with assms createSession_saved_frame [of w a p ig reply] show ?thesis
    by (simp add: run_step_def)
qed

lemma run_unswept:
  "lastRun w = None \<Longrightarrow>
     lastRun (fst (run_steps w es)) = None \<and> \<not> snd (run_steps w es) \<and> indexed w \<subseteq> indexed (fst (run_steps w es))"
proof (induction es arbitrary: w)
  case Nil
  then show ?case by simp
next
  case (Cons e es)
  from run_step_unswept [OF Cons.prems, of e]
  have st: "lastRun (fst (run_step w e)) = None" "\<not> snd (run_step w e)"
    "indexed w \<subseteq> indexed (fst (run_step w e))" by simp_all
  from Cons.IH [OF st(1)] st(2,3) show ?case
    by (auto split: prod.splits)
qed

lemma run_append: "fst (run_steps w (es1 @ es2)) = fst (run_steps (fst (run_steps w es1)) es2)"
  by (induction es1 arbitrary: w) (simp_all add: case_prod_beta)

text \<open>
  C2, what the code does. The test that schedules the sweep compares \<open>lastRun\<close>, which a
  new store does not have, with a number; the comparison is false, and only a sweep sets
  \<open>lastRun\<close>. So on a new store no sequence of resolutions and callbacks ever schedules a
  sweep, and a session id once indexed stays indexed, whatever its idle time and whether
  or not a socket is bound to it.
\<close>

theorem sweep_never_scheduled:
  "\<not> snd (run_steps (SessionStore_new o1 o2 o3 o4) (es1 @ es2))
   \<and> indexed (fst (run_steps (SessionStore_new o1 o2 o3 o4) es1))
       \<subseteq> indexed (fst (run_steps (SessionStore_new o1 o2 o3 o4) (es1 @ es2)))"
proof -
  have n: "lastRun (SessionStore_new o1 o2 o3 o4) = None" by (simp add: SessionStore_new_def)
  from run_unswept [OF n, of es1]
  have n1: "lastRun (fst (run_steps (SessionStore_new o1 o2 o3 o4) es1)) = None" by simp
  from run_unswept [OF n1, of es2] run_unswept [OF n, of "es1 @ es2"] show ?thesis
    by (simp add: run_append)
qed

text \<open>
  The sweep itself, when something calls it, does what the claim says: it removes every
  indexed session that is idle and has no live socket, and its idle path leaves a session
  with a live socket alone (such a session goes only when it is among the oldest over the
  cap).
\<close>

lemma foldl_remove_index:
  "sessionIndex (foldl removeSessionFromMemory w ss) =
     filter (\<lambda>e. fst e \<notin> set ss) (sessionIndex w)"
proof (induction ss arbitrary: w)
  case Nil
  then show ?case by simp
next
  case (Cons x xs)
  have "sessionIndex (removeSessionFromMemory w x) = AList.delete x (sessionIndex w)"
    by (auto simp: removeSessionFromMemory_def Let_def AList.delete_id map_of_eq_None_iff)
  then show ?case
    by (simp add: Cons.IH AList.delete_eq) (metis (mono_tags, lifting) filter_cong case_prod_unfold)
qed

lemma sweep_index:
  "sessionIndex (cleanupInactiveSessions w now) =
     filter (\<lambda>e. fst e \<notin> set (swept w now)) (sessionIndex w)"
  by (simp add: cleanupInactiveSessions_def Let_def foldl_remove_index swept_def)

lemma sweep_removes_idle:
  assumes "(s, a) \<in> set (sessionIndex w)" and "idle w (now - sessionTimeout (options w)) (s, a)"
  shows "s \<notin> indexed (cleanupInactiveSessions w now)"
proof -
  from assms have "s \<in> set (swept w now)"
    by (force simp: swept_def set_own_keys_order)
  then show ?thesis
    by (auto simp: sweep_index indexed_def)
qed

lemma sweep_keeps_bound:
  assumes "\<not> no_live_socket w s" and "s \<notin> set (oldestSessions w)"
  shows "map_of (sessionIndex (cleanupInactiveSessions w now)) s = map_of (sessionIndex w) s"
proof -
  have keep: "map_of (filter (\<lambda>e. fst e \<notin> S) al) s = map_of al s"
    if "s \<notin> S" for S and al :: "(string \<times> nat) list"
    using that by (induction al) auto
  from assms have "s \<notin> set (swept w now)"
    by (auto simp: swept_def idle_def set_own_keys_order)
  then show ?thesis
    using keep [of "set (swept w now)" "sessionIndex w"] by (simp add: sweep_index)
qed

section \<open>Properties of the request context\<close>

lemma respond_ends: "live r \<Longrightarrow> truthy_thrown e \<Longrightarrow> finished (respond e r) \<and> live (respond e r)"
  by (simp add: respond_def Let_def res_end_def setHeader_def safeEnd_def writableEnded_def)

lemma set_if_absent_frame:
  "live (set_if_absent r hv) = live r \<and> finished (set_if_absent r hv) = finished r"
  by (simp add: set_if_absent_def setHeader_def)

lemma setHeaders_frame:
  "live (setHeaders r sc b ct) = live r \<and> finished (setHeaders r sc b ct) = finished r"
proof -
  have "live (foldl set_if_absent r hs) = live r \<and> finished (foldl set_if_absent r hs) = finished r" for hs
    by (induction hs arbitrary: r) (simp_all add: set_if_absent_frame)
  then show ?thesis by (simp add: setHeaders_def)
qed

lemma Context_done_throws: "done_throws r err p \<Longrightarrow> Context_done r err p = r"
  by (auto simp: done_throws_def Context_done_def Let_def split: option.splits)

lemma Context_done_finishes:
  assumes "live r" "\<not> done_throws r err p"
  shows "finished (Context_done r err p) \<and> live (Context_done r err p)"
proof (cases "finished r")
  case True
  with assms(1) show ?thesis by (simp add: Context_done_def)
next
  case False
  show ?thesis
  proof (cases "case err of None \<Rightarrow> True | Some e \<Rightarrow> \<not> truthy_thrown e")
    case True
    then have n: "(case err of None \<Rightarrow> None | Some e \<Rightarrow> if truthy_thrown e then Some e else None) = None"
      by (cases err) auto
    from True assms False
    have nt: "\<not> (truthy_primitive p \<and> \<not> no_body_status (if statusCode r = 0 then 200 else statusCode r))"
      by (simp add: done_throws_def)
    have l: "live (case p of PObject None \<Rightarrow> r\<lparr>statusCode := 500\<rparr> | _ \<Rightarrow> r)"
      "\<not> finished (case p of PObject None \<Rightarrow> r\<lparr>statusCode := 500\<rparr> | _ \<Rightarrow> r)"
      using assms(1) False by (auto split: payload.splits option.splits)
    show ?thesis
      using assms(1) False nt l
      by (simp add: Context_done_def n Let_def setHeaders_frame res_end_def)
  next
    case False
    then obtain e where e: "err = Some e" "truthy_thrown e" by (cases err) auto
    have "live (r\<lparr>statusCode := num_or (statusCode_of e) 400\<rparr>)" using assms(1) by simp
    from respond_ends [OF this e(2)] \<open>\<not> finished r\<close> show ?thesis
      by (simp add: Context_done_def e)
  qed
qed

lemma set_if_absent_stub: "\<not> live r \<Longrightarrow> set_if_absent r hv = r"
  by (simp add: set_if_absent_def setHeader_def)

lemma setHeaders_stub: "\<not> live r \<Longrightarrow> setHeaders r sc b ct = r"
proof -
  have "\<not> live r \<Longrightarrow> foldl set_if_absent r hs = r" for hs
    by (induction hs) (simp_all add: set_if_absent_stub)
  then show "\<not> live r \<Longrightarrow> setHeaders r sc b ct = r" by (simp add: setHeaders_def)
qed

lemma respond_stub:
  "\<not> live r \<Longrightarrow>
     respond e r =
       (if truthy_thrown e \<and> \<not> headersSent r
        then r\<lparr>statusCode :=
               (if normalizeStatus e = 500 \<and> 400 \<le> statusCode r \<and> statusCode r < 600
                then statusCode r else normalizeStatus e)\<rparr>
        else r)"
  by (simp add: respond_def Let_def res_end_def setHeader_def safeEnd_def writableEnded_def)

lemma Context_done_stub_error:
  assumes "\<not> live r" "truthy_thrown e"
  shows "Context_done r (Some e) p =
     respond e (r\<lparr>statusCode := num_or (statusCode_of e) 400\<rparr>)"
  using assms by (simp add: Context_done_def)

lemma Context_done_stub_success:
  assumes "\<not> live r" "(case err of None \<Rightarrow> True | Some e \<Rightarrow> \<not> truthy_thrown e)"
  shows "Context_done r err p = (case p of PObject None \<Rightarrow> r\<lparr>statusCode := 500\<rparr> | _ \<Rightarrow> r)"
proof -
  have n: "(case err of None \<Rightarrow> None | Some e \<Rightarrow> if truthy_thrown e then Some e else None) = None"
    using assms(2) by (cases err) auto
  have r1: "\<not> live (case p of PObject None \<Rightarrow> r\<lparr>statusCode := 500\<rparr> | _ \<Rightarrow> r)"
    using assms(1) by (auto split: payload.splits option.splits)
  show ?thesis
    using assms(1) r1
    by (cases p) (simp_all add: Context_done_def n Let_def setHeaders_stub res_end_def)
qed

lemma Context_done_stub_idem:
  assumes "\<not> live r"
  shows "Context_done (Context_done r err p) err p = Context_done r err p"
proof (cases "case err of None \<Rightarrow> True | Some e \<Rightarrow> \<not> truthy_thrown e")
  case True
  have l: "\<not> live (case p of PObject None \<Rightarrow> r\<lparr>statusCode := 500\<rparr> | _ \<Rightarrow> r)"
    using assms by (auto split: payload.splits option.splits)
  show ?thesis
    unfolding Context_done_stub_success [OF assms True]
    unfolding Context_done_stub_success [OF l True]
    by (auto split: payload.splits option.splits)
next
  case False
  then obtain e where e: "err = Some e" "truthy_thrown e" by (cases err) auto
  define x where "x = num_or (statusCode_of e) 400"
  have l: "\<not> live (r\<lparr>statusCode := x\<rparr>)" using assms by simp
  have first: "Context_done r err p = respond e (r\<lparr>statusCode := x\<rparr>)"
    using Context_done_stub_error [OF assms e(2)] by (simp add: e x_def)
  have l2: "\<not> live (respond e (r\<lparr>statusCode := x\<rparr>))"
    using l by (simp add: respond_stub)
  have "Context_done (respond e (r\<lparr>statusCode := x\<rparr>)) err p
      = respond e ((respond e (r\<lparr>statusCode := x\<rparr>))\<lparr>statusCode := x\<rparr>)"
    using Context_done_stub_error [OF l2 e(2)] by (simp add: e x_def)
  also have "(respond e (r\<lparr>statusCode := x\<rparr>))\<lparr>statusCode := x\<rparr> = r\<lparr>statusCode := x\<rparr>"
    using l by (simp add: respond_stub)
  finally show ?thesis by (simp add: first)
qed

lemma wrapper_after_settled: "settled c \<Longrightarrow> do_call c (CallDone err p) = c"
  by simp

text \<open>
  C8. Calling \<open>done(err, payload)\<close> a second time with the same arguments leaves the
  response as the first call left it, on every context, also when both calls go through
  the wrapper the router puts around \<open>ctx.done\<close>. On a context with a live response on
  which the first call is not left by an exception, the second call changes nothing
  whatever its arguments are: the first call has ended the response and the second
  returns at \<open>if (this.res.finished)\<close>. The wrapper does nothing once the candidate has
  settled, and before that a second call through it reaches \<open>Context.done\<close>.
\<close>

theorem Context_done_twice:
  "Context_done (Context_done r err p) err p = Context_done r err p
   \<and> (live r \<and> \<not> done_throws r err1 p1 \<longrightarrow>
        Context_done (Context_done r err1 p1) err2 p2 = Context_done r err1 p1)
   \<and> (settled c \<longrightarrow> do_call c (CallDone err p) = c)
   \<and> cand_res (do_call (do_call c (CallDone err p)) (CallDone err p))
       = cand_res (do_call c (CallDone err p))
   \<and> (live (cand_res c) \<and> \<not> done_throws (cand_res c) err1 p1 \<longrightarrow>
        cand_res (do_call (do_call c (CallDone err1 p1)) (CallDone err2 p2))
          = cand_res (do_call c (CallDone err1 p1)))"
proof -
  have l: "Context_done (Context_done r' e1 q1) e2 q2 = Context_done r' e1 q1"
    if "live r'" "\<not> done_throws r' e1 q1" for r' e1 q1 e2 q2
    using Context_done_finishes [OF that]
    by (simp add: Context_done_def [of "Context_done r' e1 q1"])
  have same: "Context_done (Context_done r' e q) e q = Context_done r' e q" for r' e q
  proof (cases "live r'")
    case True
    show ?thesis
    proof (cases "done_throws r' e q")
      case True
      then show ?thesis by (simp add: Context_done_throws)
    next
      case False
      with \<open>live r'\<close> show ?thesis by (rule l)
    qed
  next
    case False
    then show ?thesis by (rule Context_done_stub_idem)
  qed
  have w: "cand_res (do_call (do_call c (CallDone err1 p1)) (CallDone err2 p2))
      = cand_res (do_call c (CallDone err1 p1))"
    if "live (cand_res c)" "\<not> done_throws (cand_res c) err1 p1"
    using l [OF that] by simp
  have ws: "cand_res (do_call (do_call c (CallDone err p)) (CallDone err p))
      = cand_res (do_call c (CallDone err p))"
    using same [of "cand_res c" err p] by simp
  from same [of r err p] l [of r err1 p1 err2 p2] w ws show ?thesis by simp
qed

theorem Context_done_twice_witness:
  "live fresh_response
   \<and> \<not> done_throws fresh_response None (PText ''hi'')
   \<and> Context_done (Context_done fresh_response None (PText ''hi'')) (Some error_404) PNothing
       = Context_done fresh_response None (PText ''hi'')
   \<and> written (Context_done fresh_response None (PText ''hi'')) = [Text ''hi'']
   \<and> settled \<lparr>cand_res = fresh_response, settled = True, handled = True,
        nextRequested = False, outcome = Resolved, awaiting_done = [], has_next = True\<rparr>
   \<and> do_call \<lparr>cand_res = fresh_response, settled = True, handled = True,
        nextRequested = False, outcome = Resolved, awaiting_done = [], has_next = True\<rparr>
        (CallDone None (PText ''hi''))
       = \<lparr>cand_res = fresh_response, settled = True, handled = True,
        nextRequested = False, outcome = Resolved, awaiting_done = [], has_next = True\<rparr>
   \<and> cand_res (do_call (do_call \<lparr>cand_res = fresh_response, settled = False, handled = False,
        nextRequested = False, outcome = Pending, awaiting_done = [], has_next = True\<rparr>
        (CallDone None (PText ''hi''))) (CallDone (Some error_404) PNothing))
       = cand_res (do_call \<lparr>cand_res = fresh_response, settled = False, handled = False,
        nextRequested = False, outcome = Pending, awaiting_done = [], has_next = True\<rparr>
        (CallDone None (PText ''hi'')))"
proof -
  have a: "live fresh_response" by (simp add: fresh_response_def)
  have t: "\<not> done_throws fresh_response None (PText ''hi'')"
    by (simp add: done_throws_def)
  have b: "written (Context_done fresh_response None (PText ''hi'')) = [Text ''hi'']"
    by code_simp
  have s: "settled \<lparr>cand_res = fresh_response, settled = True, handled = True,
        nextRequested = False, outcome = Resolved, awaiting_done = [], has_next = True\<rparr>"
    by simp
  have a2: "live (cand_res \<lparr>cand_res = fresh_response, settled = False, handled = False,
        nextRequested = False, outcome = Pending, awaiting_done = [], has_next = True\<rparr>)"
    "\<not> done_throws (cand_res \<lparr>cand_res = fresh_response, settled = False, handled = False,
        nextRequested = False, outcome = Pending, awaiting_done = [], has_next = True\<rparr>)
        None (PText ''hi'')"
    using a t by simp_all
  from Context_done_twice [of fresh_response None "PText ''hi''" None "PText ''hi''"
      "Some error_404" PNothing
      "\<lparr>cand_res = fresh_response, settled = True, handled = True,
        nextRequested = False, outcome = Resolved, awaiting_done = [], has_next = True\<rparr>"]
  have first: "Context_done (Context_done fresh_response None (PText ''hi'')) (Some error_404) PNothing
       = Context_done fresh_response None (PText ''hi'')"
    and wrapper: "do_call \<lparr>cand_res = fresh_response, settled = True, handled = True,
        nextRequested = False, outcome = Resolved, awaiting_done = [], has_next = True\<rparr>
        (CallDone None (PText ''hi''))
       = \<lparr>cand_res = fresh_response, settled = True, handled = True,
        nextRequested = False, outcome = Resolved, awaiting_done = [], has_next = True\<rparr>"
    using a t s by blast+
  from Context_done_twice [of fresh_response None "PText ''hi''" None "PText ''hi''"
      "Some error_404" PNothing
      "\<lparr>cand_res = fresh_response, settled = False, handled = False,
        nextRequested = False, outcome = Pending, awaiting_done = [], has_next = True\<rparr>"] a2
  have second: "cand_res (do_call (do_call \<lparr>cand_res = fresh_response, settled = False, handled = False,
        nextRequested = False, outcome = Pending, awaiting_done = [], has_next = True\<rparr>
        (CallDone None (PText ''hi''))) (CallDone (Some error_404) PNothing))
       = cand_res (do_call \<lparr>cand_res = fresh_response, settled = False, handled = False,
        nextRequested = False, outcome = Pending, awaiting_done = [], has_next = True\<rparr>
        (CallDone None (PText ''hi'')))"
    by blast
  from a t first b s wrapper second show ?thesis by blast
qed

section \<open>Properties of the request loop\<close>

lemma try_candidates_deferring:
  "deferring u res0 pre = Some res1 \<Longrightarrow>
     try_candidates u res0 False (pre @ rest) tried = try_candidates u res1 False rest (tried @ pre)"
proof (induction pre arbitrary: res0 tried)
  case Nil
  then show ?case by simp
next
  case (Cons x xs)
  from Cons.prems have ne: "\<not> writableEnded res0"
    and c: "outcome (run_candidate x u res0) = Resolved" "nextRequested (run_candidate x u res0)"
      "\<not> handled (run_candidate x u res0)"
    and d: "deferring u (cand_res (run_candidate x u res0)) xs = Some res1"
    by (auto simp: Let_def split: if_splits)
  from Cons.IH [OF d, of "tried @ [x]"] ne c show ?case
    by (simp add: Let_def)
qed

lemma try_candidates_rejected:
  assumes "\<not> writableEnded res1" and "outcome (run_candidate x u res1) = Rejected_with err"
  shows "try_candidates u res1 False (x # post) tried =
     LoopThrew err (cand_res (run_candidate x u res1)) (tried @ [x])"
  using assms by (simp add: Let_def)

lemma statusCode_wrap:
  "num_or (statusCode_of (wrap_thrown err)) 500 =
     (case err of AnError e \<Rightarrow> num_or (error_statusCode e) 500 | _ \<Rightarrow> 500)"
  by (cases err) (simp_all add: num_or_def)

lemma do_call_inv: "(outcome c \<noteq> Pending \<longrightarrow> settled c) \<Longrightarrow>
    (outcome (do_call c k) \<noteq> Pending \<longrightarrow> settled (do_call c k))"
  by (cases k) (auto simp: resolve_def reject_def Let_def split: option.splits)

lemma calls_inv: "(outcome c \<noteq> Pending \<longrightarrow> settled c) \<Longrightarrow>
    (outcome (foldl do_call c ks) \<noteq> Pending \<longrightarrow> settled (foldl do_call c ks))"
proof (induction ks arbitrary: c)
  case Nil
  then show ?case by simp
next
  case (Cons k ks)
  from Cons.IH [OF do_call_inv [OF Cons.prems, of k]] show ?case by simp
qed

lemma after_done_settled: "outcome c \<noteq> Pending \<Longrightarrow> outcome (foldl after_done c rs) = outcome c"
  by (induction rs arbitrary: c) (auto simp: after_done_def resolve_def reject_def split: option.splits)

lemma sync_throw_rejects:
  assumes "throws b = Some err" and "outcome c = Pending"
    and "\<not> settled (foldl do_call c (first_calls b))"
  shows "outcome (invokeHandler c b) = Rejected_with err"
proof -
  have "outcome (foldl do_call c (first_calls b)) = Pending"
    using calls_inv [of c "first_calls b"] assms(2,3) by auto
  then show ?thesis
    using assms(1,3) by (simp add: invokeHandler_def Let_def reject_def flush_def after_done_settled)
qed

lemma promise_rejection_rejects:
  assumes "returns_promise b" "throws b = None" "\<not> settled c" "outcome c = Pending"
  shows "outcome (run_later b c (Rejected err # evs)) = Rejected_with err"
proof -
  have "outcome (do_event b c (Rejected err)) = Rejected_with err"
    using assms by (simp add: do_event_def reject_def)
  then show ?thesis using assms(4) by (cases evs) simp_all
qed

text \<open>
  C4, as amended. Let the candidates before \<open>x\<close> all defer and let the promise of \<open>x\<close>
  be rejected with \<open>err\<close>: its handler threw \<open>err\<close> or its returned promise rejected with
  \<open>err\<close> before the candidate had settled (lemmas \<open>sync_throw_rejects\<close> and
  \<open>promise_rejection_rejects\<close>). Then no candidate after \<open>x\<close> is tried, and the error
  responder is called with the response's status code set to \<open>err.statusCode\<close> when
  \<open>err\<close> is an instance of \<open>Error\<close> with a non-zero \<open>statusCode\<close>, and to 500 otherwise;
  a value that is not an instance of \<open>Error\<close> is replaced by an object with
  \<open>statusCode\<close> 500 before it is handed over.
\<close>

theorem route_error_handoff:
  assumes "handleSessions (resources r) = SessionsOk"
    and "fst (matchResources r u) = Inr (pre @ x # post)"
    and "deferring u res0 pre = Some res1"
    and "\<not> writableEnded res1"
    and "outcome (run_candidate x u res1) = Rejected_with err"
  shows "out_tried (route r False u res0) = pre @ [x]
    \<and> out_handoff (route r False u res0) =
        Some (wrap_thrown err,
              case err of AnError e \<Rightarrow> num_or (error_statusCode e) 500 | _ \<Rightarrow> 500)
    \<and> out_res (route r False u res0) =
        respond (wrap_thrown err)
          ((cand_res (run_candidate x u res1))
             \<lparr>statusCode := (case err of AnError e \<Rightarrow> num_or (error_statusCode e) 500 | _ \<Rightarrow> 500)\<rparr>)
    \<and> \<not> out_404 (route r False u res0) \<and> \<not> out_hung (route r False u res0)"
proof -
  obtain r1 where m: "matchResources r u = (Inr (pre @ x # post), r1)"
    using assms(2) by (cases "matchResources r u") simp
  have loop: "try_candidates u res0 False (pre @ x # post) [] =
      LoopThrew err (cand_res (run_candidate x u res1)) (pre @ [x])"
    using try_candidates_deferring [OF assms(3), of "x # post" "[]"]
      try_candidates_rejected [OF assms(4,5), of post pre] by simp
  show ?thesis
    using assms(1) m loop statusCode_wrap [of err]
    by (simp add: route_def route_catch_def Let_def)
qed

theorem route_error_handoff_witness:
  "handleSessions (resources (Router_new
       [throwing_resource plain_403 ''/a'', throwing_resource error_404 ''/a/b''])) = SessionsOk
   \<and> fst (matchResources (Router_new
       [throwing_resource plain_403 ''/a'', throwing_resource error_404 ''/a/b'']) ''/a/b'')
       = Inr ([] @ throwing_resource error_404 ''/a/b'' # [throwing_resource plain_403 ''/a''])
   \<and> deferring ''/a/b'' fresh_response ([] :: handler_resource list) = Some fresh_response
   \<and> \<not> writableEnded fresh_response
   \<and> outcome (run_candidate (throwing_resource error_404 ''/a/b'') ''/a/b'' fresh_response)
       = Rejected_with error_404
   \<and> out_tried (route (Router_new
       [throwing_resource plain_403 ''/a'', throwing_resource error_404 ''/a/b''])
       False ''/a/b'' fresh_response) = [] @ [throwing_resource error_404 ''/a/b'']
   \<and> out_handoff (route (Router_new
       [throwing_resource plain_403 ''/a'', throwing_resource error_404 ''/a/b''])
       False ''/a/b'' fresh_response) = Some (error_404, 404)"
proof -
  have h1: "handleSessions (resources (Router_new
       [throwing_resource plain_403 ''/a'', throwing_resource error_404 ''/a/b''])) = SessionsOk"
    by code_simp
  have h2: "fst (matchResources (Router_new
       [throwing_resource plain_403 ''/a'', throwing_resource error_404 ''/a/b'']) ''/a/b'')
       = Inr ([] @ throwing_resource error_404 ''/a/b'' # [throwing_resource plain_403 ''/a''])"
    by code_simp
  have h3: "deferring ''/a/b'' fresh_response ([] :: handler_resource list) = Some fresh_response"
    by simp
  have h4: "\<not> writableEnded fresh_response"
    by (simp add: writableEnded_def fresh_response_def)
  have h5: "outcome (run_candidate (throwing_resource error_404 ''/a/b'') ''/a/b'' fresh_response)
       = Rejected_with error_404"
    by code_simp
  have e: "wrap_thrown error_404 = error_404
      \<and> (case error_404 of AnError e \<Rightarrow> num_or (error_statusCode e) 500 | _ \<Rightarrow> 500) = 404"
    by (simp add: error_404_def num_or_def)
  from route_error_handoff [OF h1 h2 h3 h4 h5] h1 h2 h3 h4 h5 e
  show ?thesis by simp
qed

text \<open>
  The claim as written fails for a plain object: a handler that throws
  \<open>{ message: 'nope', statusCode: 403 }\<close> gets the responder called with status 500.
\<close>

theorem route_plain_object_counterexample:
  "out_handoff (route (Router_new [throwing_resource plain_403 ''/a'']) False ''/a''
       fresh_response)
     = Some (AnObject \<lparr>message = ''[object Object]'', error_statusCode = Some 500,
                        error_status = None, serializable = True\<rparr>, 500)
   \<and> statusCode (out_res (route (Router_new [throwing_resource plain_403 ''/a'']) False ''/a''
       fresh_response)) = 500
   \<and> statusCode_of plain_403 = Some 403"
  by code_simp

section \<open>Properties of the script sandbox\<close>

lemma run_without_domain_eq:
  "script_error s = None \<Longrightarrow> run_without_domain s g = run s g None"
  by (simp add: run_without_domain_def)

lemma run_without_domain_new:
  "run_without_domain (Script_new src ok) g = run (Script_new src ok) g None"
  by (simp add: run_without_domain_def Script_new_def)

subsection \<open>Compilation\<close>

lemma getFunction_compiles:
  assumes "memo_fresh s"
  shows "compilations (snd (getFunction s names)) = compilations s + 1
    \<and> length (memo (snd (getFunction s names))) = length (memo s) + (if syntax_ok s then 1 else 0)
    \<and> memo_fresh (snd (getFunction s names))
    \<and> syntax_ok (snd (getFunction s names)) = syntax_ok s
    \<and> script_error (snd (getFunction s names)) = script_error s
    \<and> scriptSourceCode (snd (getFunction s names)) = scriptSourceCode s"
proof -
  have "map_of (memo s) (next_ref s) = None"
    using assms by (force simp: memo_fresh_def list_all_iff map_of_eq_None_iff)
  then show ?thesis
    using assms by (auto simp: getFunction_def Let_def memo_fresh_def list_all_iff)
qed

lemma run_compiles:
  assumes "memo_fresh s" "script_error s = None"
  shows "compilations (snd (run s g None)) = compilations s + 1
    \<and> length (memo (snd (run s g None))) = length (memo s) + (if syntax_ok s then 1 else 0)
    \<and> memo_fresh (snd (run s g None))
    \<and> syntax_ok (snd (run s g None)) = syntax_ok s
    \<and> script_error (snd (run s g None)) = None"
proof -
  obtain res s1 where g: "getFunction s (context_names @ (if mode initial_run = NoDomain then [] else domain_names initial_run)) = (res, s1)"
    by (cases "getFunction s (context_names @ (if mode initial_run = NoDomain then [] else domain_names initial_run))")
  have "snd (run s g None) = s1"
    using assms(2) g by (cases res) (simp_all add: run_def Let_def case_prod_beta)
  with getFunction_compiles [OF assms(1), of "context_names @ (if mode initial_run = NoDomain then [] else domain_names initial_run)"] g assms(2)
  show ?thesis by simp
qed

lemma runs_compile:
  "memo_fresh s \<Longrightarrow> script_error s = None \<Longrightarrow>
     compilations (runs s n) = compilations s + n
     \<and> length (memo (runs s n)) = length (memo s) + (if syntax_ok s then n else 0)"
proof (induction n arbitrary: s)
  case 0
  then show ?case by simp
next
  case (Suc n)
  from run_compiles [OF Suc.prems, of None]
  have st: "compilations (snd (run s None None)) = compilations s + 1"
    "length (memo (snd (run s None None))) = length (memo s) + (if syntax_ok s then 1 else 0)"
    "memo_fresh (snd (run s None None))" "syntax_ok (snd (run s None None)) = syntax_ok s"
    "script_error (snd (run s None None)) = None" by simp_all
  from Suc.IH [OF st(3,5)] st(1,2,4) show ?case by simp
qed

text \<open>
  C5, what the code does. Every run compiles: the key of the cache is the array of
  names, a new object on each run, so no lookup finds an entry, and after \<open>n\<close> runs
  with the same names \<open>new Function\<close> has been called \<open>n\<close> times and (for a source that
  compiles) the cache holds \<open>n\<close> entries.
\<close>

theorem compiles_on_every_run:
  "compilations (runs (Script_new src ok) n) = n
   \<and> length (memo (runs (Script_new src True) n)) = n"
proof -
  have f: "memo_fresh (Script_new src b)" "script_error (Script_new src b) = None" for b
    by (simp_all add: memo_fresh_def Script_new_def)
  show ?thesis
    using runs_compile [OF f, of ok n] runs_compile [OF f, of True n]
    by (simp add: Script_new_def)
qed

subsection \<open>Completion\<close>

lemma run_event_quiet:
  assumes "\<not> tick_scheduled st" "mode st \<noteq> Wrapped"
  shows "onDone (run_event st ev) = onDone st \<and> \<not> tick_scheduled (run_event st ev) \<and> mode (run_event st ev) \<noteq> Wrapped"
  using assms by (cases ev) (simp_all add: Let_def)

lemma run_events_quiet:
  "\<not> tick_scheduled st \<Longrightarrow> mode st \<noteq> Wrapped \<Longrightarrow> onDone (run_events st evs) = onDone st"
  unfolding run_events_def
proof (induction evs arbitrary: st)
  case Nil
  then show ?case by simp
next
  case (Cons ev evs)
  from run_event_quiet [OF Cons.prems, of ev] Cons.IH [of "run_event st ev"] show ?case by simp
qed

lemma run_no_global_fn:
  "fst (run (Script_new src ok) None (Some names)) = initial_run\<lparr>run_rejected := Some (reference_error ''fn'')\<rparr>"
  by (simp add: run_def Script_new_def setupDomainHandlers_def)

lemma exec_statement_locals:
  "waitingForCallback (fst (exec_statement st x)) = waitingForCallback st
   \<and> callbackCount (fst (exec_statement st x)) = callbackCount st"
  by (cases x) (auto simp: addCallback_def doneCallback_def Let_def split: option.splits)

lemma exec_hook_locals:
  "waitingForCallback (fst (exec_hook st xs)) = waitingForCallback st
   \<and> callbackCount (fst (exec_hook st xs)) = callbackCount st"
proof (induction xs arbitrary: st)
  case Nil
  then show ?case by simp
next
  case (Cons x xs)
  obtain st1 r where e: "exec_statement (st\<lparr>executed := executed st + 1\<rparr>) x = (st1, r)"
    by (cases "exec_statement (st\<lparr>executed := executed st + 1\<rparr>) x")
  from exec_statement_locals [of "st\<lparr>executed := executed st + 1\<rparr>" x] e
  have l: "waitingForCallback st1 = waitingForCallback st" "callbackCount st1 = callbackCount st"
    by simp_all
  show ?case using e l Cons.IH [of st1] by (cases r) simp_all
qed

lemma run_tick_completes:
  "isDone (run_event (fst (run (Script_new src ok) (Some b) domain)) Tick)"
proof -
  define st0 where "st0 = (case domain of None \<Rightarrow> initial_run
      | Some names \<Rightarrow> initial_run\<lparr>mode := (if b then Wrapped else Raw), domain_names := names @ [''$addCallback'', ''$finishCallback'', ''dpd'']\<rparr>)"
  have l0: "\<not> waitingForCallback st0" "callbackCount st0 = 0"
    by (simp_all add: st0_def initial_run_def split: option.splits)
  define st where "st = fst (run (Script_new src ok) (Some b) domain)"
  have "tick_scheduled st \<and> \<not> waitingForCallback st \<and> callbackCount st = 0"
    using exec_hook_locals [of st0 src] l0
    by (cases domain)
      (auto simp: st_def run_def Script_new_def setupDomainHandlers_def st0_def getFunction_def Let_def
        split: prod.splits option.splits sum.splits)
  then show ?thesis
    by (simp add: st_def [symmetric] doneCallback_def)
qed

text \<open>
  C1, what the code does. With a domain, \<open>_setupDomainHandlers\<close> reads the undeclared
  \<open>fn\<close>: unless the environment has a global of that name, \<open>run\<close> is left by a
  ReferenceError before the hook runs, and the callback is never called, whatever
  happens later. In an environment that has such a global, the callback given to
  \<open>process.nextTick\<close> tests the local variables \<open>waitingForCallback\<close> and
  \<open>callbackCount\<close>, which nothing changes (the handlers count on \<open>scriptContext\<close>), so
  the run completes on that tick whatever is outstanding: in the example, with two
  operations handed out and none called back.
\<close>

theorem run_completion_not_counted:
  "onDone (run_events (fst (run (Script_new src ok) None (Some names))) evs) = []
   \<and> run_rejected (fst (run (Script_new src ok) None (Some names)))
       = Some (reference_error ''fn'')
   \<and> executed (fst (run (Script_new src ok) None (Some names))) = 0
   \<and> isDone (run_event (fst (run (Script_new src ok) (Some b) domain)) Tick)
   \<and> onDone (run_events (fst (run (Script_new [CallDomain ''a'' None, CallDomain ''b'' None] True)
         (Some True) (Some [''a'', ''b'']))) [Tick]) = [None]
   \<and> dispatched (run_events (fst (run (Script_new [CallDomain ''a'' None, CallDomain ''b'' None] True)
         (Some True) (Some [''a'', ''b'']))) [Tick]) = 2
   \<and> called_back (run_events (fst (run (Script_new [CallDomain ''a'' None, CallDomain ''b'' None] True)
         (Some True) (Some [''a'', ''b'']))) [Tick]) = 0"
proof -
  have q: "onDone (run_events (fst (run (Script_new src ok) None (Some names))) evs) = []"
    using run_events_quiet [of "initial_run\<lparr>run_rejected := Some (reference_error ''fn'')\<rparr>" evs]
    by (simp add: run_no_global_fn initial_run_def)
  have r: "run_rejected (fst (run (Script_new src ok) None (Some names)))
       = Some (reference_error ''fn'')"
    "executed (fst (run (Script_new src ok) None (Some names))) = 0"
    by (simp_all add: run_no_global_fn initial_run_def)
  have e1: "onDone (run_events (fst (run (Script_new [CallDomain ''a'' None, CallDomain ''b'' None] True)
         (Some True) (Some [''a'', ''b'']))) [Tick]) = [None]"
    by code_simp
  have e2: "dispatched (run_events (fst (run (Script_new [CallDomain ''a'' None, CallDomain ''b'' None] True)
         (Some True) (Some [''a'', ''b'']))) [Tick]) = 2"
    by code_simp
  have e3: "called_back (run_events (fst (run (Script_new [CallDomain ''a'' None, CallDomain ''b'' None] True)
         (Some True) (Some [''a'', ''b'']))) [Tick]) = 0"
    by code_simp
  from q r run_tick_completes [of src ok b domain] e1 e2 e3 show ?thesis by simp
qed

text \<open>
  C3, what the code does. A hook that starts with \<open>cancelIf(true, msg, 403)\<close>, run
  without a domain: the helper throws, so no later statement executes, but what it
  throws is the TypeError of the missing \<open>this.done\<close>, not the error it built, and the
  completion reports that TypeError, which carries no status code.
\<close>

theorem cancelIf_reports_type_error:
  "onDone (run_events (fst (run (Script_new (CancelIf True msg (Some 403) # rest) True) g None))
       [Tick]) = [Some (type_error ''this.done'')]
   \<and> statusCode_of (type_error ''this.done'') = None
   \<and> status_of (type_error ''this.done'') = None
   \<and> executed (fst (run (Script_new (CancelIf True msg (Some 403) # rest) True) g None)) = 1"
  by (simp add: run_def Script_new_def getFunction_def Let_def initial_run_def cancel_throws_def
      Script_properties_def run_events_def doneCallback_def type_error_def)

end
